theory Spec2Isabelle
  imports Complex_Main
begin

section \<open>JavaScript strings and numbers\<close>

text \<open>
  A JavaScript string is a sequence of UTF-16 code units; a code unit is modelled by its
  number. \<open>str\<close> turns an ASCII literal of the source into its code units.
\<close>

type_synonym jsstring = "nat list"

definition str :: "string \<Rightarrow> jsstring" where
  "str s = map of_char s"

text \<open>
  The characters that \<^verbatim>\<open>\s\<close> matches and that \<^verbatim>\<open>String.prototype.trim\<close> strips
  (ECMAScript WhiteSpace and LineTerminator): TAB, LF, VT, FF, CR, SP, NBSP, U+1680,
  U+2000..U+200A, U+2028, U+2029, U+202F, U+205F, U+3000, U+FEFF.
\<close>

definition is_space :: "nat \<Rightarrow> bool" where
  "is_space c \<longleftrightarrow>
     c \<in> set [9, 10, 11, 12, 13, 32, 160, 5760, 8232, 8233, 8239, 8287, 12288, 65279]
     \<or> (8192 \<le> c \<and> c \<le> 8202)"

definition trim :: "jsstring \<Rightarrow> jsstring" where
  "trim s = rev (dropWhile is_space (rev (dropWhile is_space s)))"

text \<open>
  A JavaScript number: NaN, the two infinities (the flag says negative), negative zero,
  and a finite double given by its exact value; \<open>Finite 0\<close> is positive zero.
\<close>

datatype jsnum = NaN | Infinity bool | NegativeZero | Finite rat

definition negate :: "jsnum \<Rightarrow> jsnum" where
  "negate x =
     (case x of
        NaN \<Rightarrow> NaN
      | Infinity s \<Rightarrow> Infinity (\<not> s)
      | NegativeZero \<Rightarrow> Finite 0
      | Finite q \<Rightarrow> if q = 0 then NegativeZero else Finite (- q))"

text \<open>
  The Number value of a positive ratio \<open>n / d\<close>: the nearest IEEE 754 double, ties to the
  even significand. \<open>floor_log2 n d\<close> is the binary exponent \<open>e\<close> of the ratio, with
  \<open>pow2 e \<le> n / d < pow2 (e + 1)\<close>. A double with exponent \<open>e\<close> is a multiple of
  \<open>pow2 (e - 52)\<close>; below \<open>pow2 (- 1022)\<close> the doubles are subnormal and keep the spacing
  \<open>pow2 (- 1074)\<close>; a ratio that rounds to \<open>pow2 1024\<close> or more is infinite.
\<close>

fun bit_length :: "nat \<Rightarrow> nat" where
  "bit_length n = (if n = 0 then 0 else Suc (bit_length (n div 2)))"

definition pow2 :: "int \<Rightarrow> rat" where
  "pow2 e = (if 0 \<le> e then 2 ^ nat e else 1 / 2 ^ nat (- e))"

definition floor_log2 :: "nat \<Rightarrow> nat \<Rightarrow> int" where
  "floor_log2 n d =
     (let e0 = int (bit_length n) - int (bit_length d)
      in if (if 0 \<le> e0 then 2 ^ nat e0 * d \<le> n else d \<le> 2 ^ nat (- e0) * n) then e0
         else e0 - 1)"

definition round_ratio :: "nat \<Rightarrow> nat \<Rightarrow> nat" where
  "round_ratio n d =
     (let f = n div d; r = n mod d
      in if 2 * r < d then f
         else if d < 2 * r then f + 1
         else if even f then f else f + 1)"

definition nearest_double :: "nat \<Rightarrow> nat \<Rightarrow> jsnum" where
  "nearest_double n d =
     (if n = 0 then Finite 0
      else
        (let e = max (floor_log2 n d) (- 1022);
             m = (if e \<le> 52 then round_ratio (2 ^ nat (52 - e) * n) d
                  else round_ratio n (2 ^ nat (e - 52) * d))
         in if 1023 < e \<or> (e = 1023 \<and> 2 ^ 53 \<le> m) then Infinity False
            else Finite (of_nat m * pow2 (e - 52))))"

definition is_digit :: "nat \<Rightarrow> bool" where
  "is_digit c \<longleftrightarrow> 48 \<le> c \<and> c \<le> 57"

definition digits_value :: "jsstring \<Rightarrow> nat" where
  "digits_value ds = foldl (\<lambda>acc c. 10 * acc + (c - 48)) 0 ds"

text \<open>
  The exponent part of a decimal literal: \<^verbatim>\<open>e\<close> or \<^verbatim>\<open>E\<close>, an optional sign and at
  least one digit. Anything else is not part of the longest literal prefix and counts as
  exponent 0.
\<close>

definition exponent_value :: "jsstring \<Rightarrow> int" where
  "exponent_value s =
     (case s of
        [] \<Rightarrow> 0
      | e # r \<Rightarrow>
          if e = 101 \<or> e = 69 then
            (case r of
               [] \<Rightarrow> 0
             | g # r' \<Rightarrow>
                 if g = 43 then
                   (if takeWhile is_digit r' = [] then 0
                    else int (digits_value (takeWhile is_digit r')))
                 else if g = 45 then
                   (if takeWhile is_digit r' = [] then 0
                    else - int (digits_value (takeWhile is_digit r')))
                 else
                   (if takeWhile is_digit r = [] then 0
                    else int (digits_value (takeWhile is_digit r))))
          else 0)"

text \<open>
  An unsigned literal: digits, an optional fraction, an optional exponent. Its
  mathematical value is the digits of both parts, as one integer, times the power of ten
  given by the exponent less the length of the fraction; the Number value is the nearest
  double. NaN when there is no digit on either side of the point.
\<close>

definition unsigned_literal :: "jsstring \<Rightarrow> jsnum" where
  "unsigned_literal u =
     (let ip = takeWhile is_digit u;
          r1 = dropWhile is_digit u;
          fp = (case r1 of [] \<Rightarrow> [] | d # r \<Rightarrow> if d = 46 then takeWhile is_digit r else []);
          r2 = (case r1 of [] \<Rightarrow> [] | d # r \<Rightarrow> if d = 46 then dropWhile is_digit r else r1);
          e = exponent_value r2 - int (length fp)
      in if ip = [] \<and> fp = [] then NaN
         else if 0 \<le> e then nearest_double (digits_value (ip @ fp) * 10 ^ nat e) 1
         else nearest_double (digits_value (ip @ fp)) (10 ^ nat (- e)))"

text \<open>
  \<^verbatim>\<open>parseFloat\<close>: skip leading white space, read the longest prefix that is a
  StrDecimalLiteral (an optional sign, then \<^verbatim>\<open>Infinity\<close> or an unsigned literal); NaN
  when no prefix is one.
\<close>

definition parseFloat :: "jsstring \<Rightarrow> jsnum" where
  "parseFloat s =
     (let t = dropWhile is_space s;
          neg = (case t of [] \<Rightarrow> False | c # _ \<Rightarrow> c = 45);
          u = (case t of [] \<Rightarrow> [] | c # r \<Rightarrow> if c = 43 \<or> c = 45 then r else t);
          x = (if take 8 u = str ''Infinity'' then Infinity False else unsigned_literal u)
      in if neg then negate x else x)"

section \<open>The five regular expressions of the text fallback\<close>

text \<open>
  Each pattern is \<^verbatim>\<open>/<label>:\s*([^\n*]+)/i\<close>. Under the \<^verbatim>\<open>i\<close> flag (no \<^verbatim>\<open>u\<close> flag) two
  code units match when their canonical forms agree; the canonical form of an ASCII letter
  is its upper case, and a code unit from 128 on never has an ASCII canonical form, so it
  never matches a character of a label.
\<close>

definition canonicalize :: "nat \<Rightarrow> nat" where
  "canonicalize c = (if 97 \<le> c \<and> c \<le> 122 then c - 32 else c)"

fun match_label :: "jsstring \<Rightarrow> jsstring \<Rightarrow> jsstring option" where
  "match_label [] s = Some s"
| "match_label (p # ps) [] = None"
| "match_label (p # ps) (c # cs) =
     (if canonicalize c = canonicalize p then match_label ps cs else None)"

text \<open>The capture group \<^verbatim>\<open>([^\n*]+)\<close>, greedy, at the end of the pattern.\<close>

definition capture_char :: "nat \<Rightarrow> bool" where
  "capture_char c \<longleftrightarrow> c \<noteq> 10 \<and> c \<noteq> 42"

definition match_capture :: "jsstring \<Rightarrow> jsstring option" where
  "match_capture s =
     (let g = takeWhile capture_char s in if g = [] then None else Some g)"

text \<open>
  \<^verbatim>\<open>\s*\<close> followed by the group, with backtracking: the star first takes one more white
  space character, and gives it back when the rest of the pattern fails behind it.
\<close>

fun match_spaces_capture :: "jsstring \<Rightarrow> jsstring option" where
  "match_spaces_capture [] = match_capture []"
| "match_spaces_capture (c # cs) =
     (if is_space c then
        (case match_spaces_capture cs of
           Some g \<Rightarrow> Some g
         | None \<Rightarrow> match_capture (c # cs))
      else match_capture (c # cs))"

definition match_at :: "jsstring \<Rightarrow> jsstring \<Rightarrow> jsstring option" where
  "match_at label s =
     (case match_label label s of
        None \<Rightarrow> None
      | Some rest \<Rightarrow> match_spaces_capture rest)"

text \<open>
  \<^verbatim>\<open>text.match(re)\<close> for a pattern without the \<^verbatim>\<open>g\<close> flag: the leftmost position
  where the pattern matches; the result is capture group 1, \<open>None\<close> for \<^verbatim>\<open>null\<close>.
\<close>

fun regex_match :: "jsstring \<Rightarrow> jsstring \<Rightarrow> jsstring option" where
  "regex_match label [] = match_at label []"
| "regex_match label (c # cs) =
     (case match_at label (c # cs) of
        Some g \<Rightarrow> Some g
      | None \<Rightarrow> regex_match label cs)"

section \<open>JSON values\<close>

text \<open>
  What \<^verbatim>\<open>JSON.parse\<close> returns. An object is the list of its own properties, each key
  once. A property read on the result may also give \<^verbatim>\<open>undefined\<close>.
\<close>

datatype json =
    JNull
  | JBool bool
  | JNumber jsnum
  | JString jsstring
  | JArray "json list"
  | JObject "(jsstring \<times> json) list"

datatype jsvalue = Undefined | Value json

definition nullable :: "jsstring option \<Rightarrow> jsvalue" where
  "nullable v = (case v of None \<Rightarrow> Value JNull | Some s \<Rightarrow> Value (JString s))"

section \<open>The taxonomy (src/lib/tax-schema.ts)\<close>

record country_schema =
  CompanyDocuments :: "jsstring list"
  EmployeeDocuments :: "jsstring list"

definition India :: country_schema where
  "India =
     \<lparr>CompanyDocuments =
        [str ''Certificate of Incorporation'',
         str ''PAN Card'',
         str ''TAN Registration Certificate'',
         str ''GST Registration Certificate'',
         str ''MOA and AOA'',
         str ''Business/Trade License'',
         str ''Shops & Establishment Registration'',
         str ''Professional Tax Registration'',
         str ''Import Export Code (IEC)'',
         str ''Annual Financial Statements'',
         str ''Tax Audit Reports (Form 3CA/3CB & 3CD)'',
         str ''Income Tax Returns (ITR copies)'',
         str ''GST Returns (GSTR-1, GSTR-3B, GSTR-9)'',
         str ''PF and ESI Registration'',
         str ''PF and ESI Challans and Returns'',
         str ''Board Resolutions'',
         str ''Director KYC (DIR-3)''],
      EmployeeDocuments =
        [str ''PAN Card'',
         str ''Aadhaar Card'',
         str ''Form 16'',
         str ''Salary Slips'',
         str ''Bank Statements'',
         str ''Investment Proofs'',
         str ''Previous Employment Form 16'',
         str ''Medical Insurance Proof'',
         str ''Rent Receipts'',
         str ''Loan Certificates'',
         str ''LTA Proofs'']\<rparr>"

definition Germany :: country_schema where
  "Germany =
     \<lparr>CompanyDocuments =
        [str ''Trade Registration Certificate'',
         str ''VAT Registration'',
         str ''Articles of Association'',
         str ''Handelsregisterauszug'',
         str ''Annual Financial Statements'',
         str ''Tax Number Assignment Letter'',
         str ''Tax Assessment Notices'',
         str ''VAT Returns'',
         str ''Social Security Registration''],
      EmployeeDocuments =
        [str ''Steueridentifikationsnummer'',
         str ''Sozialversicherungsausweis'',
         str ''Salary Certificates'',
         str ''ELSTER Reports'',
         str ''Health Insurance Certificate'',
         str ''Lohnsteuerbescheinigung'',
         str ''Previous Employer Salary Proof'',
         str ''Pension Contribution Proofs'']\<rparr>"

definition China :: country_schema where
  "China =
     \<lparr>CompanyDocuments =
        [str ''Business License'',
         str ''Organization Code Certificate'',
         str ''Tax Registration Certificate'',
         str ''Social Insurance Registration'',
         str ''VAT Registration Certificate'',
         str ''Financial Statements'',
         str ''Corporate Income Tax Return'',
         str ''VAT Returns'',
         str ''Tax Clearance Certificate''],
      EmployeeDocuments =
        [str ''National ID Card'',
         str ''Labor Contract Copy'',
         str ''Payslips'',
         str ''IIT Payment Certificates'',
         str ''Social Insurance Contribution Record'',
         str ''Housing Provident Fund Contribution Proof'',
         str ''Previous Employer Income Proof'',
         str ''Residence Permit'']\<rparr>"

definition USA :: country_schema where
  "USA =
     \<lparr>CompanyDocuments =
        [str ''Certificate of Incorporation / Formation'',
         str ''EIN'',
         str ''State Tax Registration Certificate'',
         str ''IRS Tax Filings'',
         str ''Financial Statements'',
         str ''State Annual Reports'',
         str ''W-2 Forms for employees'',
         str ''1099 Forms for contractors'',
         str ''Payroll Tax Returns'',
         str ''Sales Tax Registration and Returns''],
      EmployeeDocuments =
        [str ''Social Security Number (SSN)'',
         str ''W-2 Forms'',
         str ''1099-NEC'',
         str ''Paystubs'',
         str ''Investment Proofs'',
         str ''Health Insurance Documents'',
         str ''Previous Employer Pay Records'',
         str ''Mortgage or Student Loan Interest Statements'']\<rparr>"

definition Japan :: country_schema where
  "Japan =
     \<lparr>CompanyDocuments =
        [str ''Certificate of Registered Matters'',
         str ''Corporate Number Notification'',
         str ''Articles of Incorporation'',
         str ''Business License'',
         str ''Tax Payment Slips'',
         str ''Consumption Tax Return'',
         str ''Financial Statements'',
         str ''Annual Corporate Tax Return'',
         str ''Labor Insurance Registration Certificate'',
         str ''Social Insurance Participation Certificate''],
      EmployeeDocuments =
        [str ''My Number Card'',
         str ''Gensen Ch'' @ [333] @ str ''sh'' @ [363] @ str ''hy'' @ [333],
         str ''Salary Statements'',
         str ''Health Insurance Card'',
         str ''Employment Contract'',
         str ''Residence Card'',
         str ''Previous Employer Gensen Ch'' @ [333] @ str ''sh'' @ [363] @ str ''hy'' @ [333]]\<rparr>"

definition UAE :: country_schema where
  "UAE =
     \<lparr>CompanyDocuments =
        [str ''Trade License'',
         str ''VAT Registration Certificate'',
         str ''Corporate Bank Account Proof'',
         str ''Memorandum of Association (MOA)'',
         str ''Certificate of Incorporation'',
         str ''Lease Agreement (Ejari)'',
         str ''Financial Audit Reports'',
         str ''VAT Returns Filing Receipts'',
         str ''UBO Declaration''],
      EmployeeDocuments =
        [str ''Emirates ID'',
         str ''Labor Contract'',
         str ''Passport Copy'',
         str ''Visa Copy'',
         str ''Salary Certificates'',
         str ''Payslips'',
         str ''Health Insurance Card'',
         str ''WPS Salary Transfer Proof'',
         str ''End of Service Benefits Calculation Sheets'']\<rparr>"

definition taxSchema :: "(jsstring \<times> country_schema) list" where
  "taxSchema =
     [(str ''India'', India), (str ''Germany'', Germany), (str ''China'', China),
      (str ''USA'', USA), (str ''Japan'', Japan), (str ''UAE'', UAE)]"

text \<open>
  \<^verbatim>\<open>taxSchema\<close> and each of its entries are plain object literals, so a read
  \<^verbatim>\<open>obj[key]\<close> also finds what \<^verbatim>\<open>Object.prototype\<close> provides. These are its
  property names in a browser (ECMAScript with Annex B); every one of them holds a
  function or an object, which is truthy and has no \<^verbatim>\<open>includes\<close> method.
\<close>

definition object_prototype_keys :: "jsstring list" where
  "object_prototype_keys =
     [str ''constructor'', str ''hasOwnProperty'', str ''isPrototypeOf'',
      str ''propertyIsEnumerable'', str ''toLocaleString'', str ''toString'',
      str ''valueOf'', str ''__proto__'', str ''__defineGetter__'',
      str ''__defineSetter__'', str ''__lookupGetter__'', str ''__lookupSetter__'']"

datatype 'a property = Absent | Own 'a | Inherited

text \<open>\<^verbatim>\<open>taxSchema[key]\<close>.\<close>

definition taxSchema_get :: "jsstring \<Rightarrow> country_schema property" where
  "taxSchema_get key =
     (case map_of taxSchema key of
        Some cs \<Rightarrow> Own cs
      | None \<Rightarrow> if key \<in> set object_prototype_keys then Inherited else Absent)"

section \<open>The engine\<close>

text \<open>
  What the classifier takes from the JavaScript engine and cannot be read off the
  repository. \<open>json_parse\<close> is \<^verbatim>\<open>JSON.parse\<close>, \<open>None\<close> when it throws a SyntaxError.
  \<open>builtin_includes c k t\<close> is the outcome of
  \<^verbatim>\<open>taxSchema[c]?.[k]?.includes(t)\<close> when \<open>c\<close> names a member of \<^verbatim>\<open>Object.prototype\<close>
  (a built-in function or the prototype object, whose own properties differ between
  engines): \<open>None\<close> when the expression throws a TypeError, otherwise whether its value is
  truthy.
\<close>

record runtime =
  json_parse :: "jsstring \<Rightarrow> json option"
  builtin_includes :: "jsstring \<Rightarrow> jsstring \<Rightarrow> jsstring \<Rightarrow> bool option"

datatype exception = TypeError

section \<open>extractDocumentDetails (src/hooks/use-document-classifier.ts)\<close>

datatype status = classified | pending_review | non_classified

text \<open>
  The local \<^verbatim>\<open>details\<close> of the text fallback. \<^verbatim>\<open>category\<close> is typed
  \<^verbatim>\<open>DocumentCategory\<close> in the source, but the cast \<^verbatim>\<open>as DocumentCategory\<close> checks
  nothing: at run time it is whatever string the pattern captured.
\<close>

record details =
  country :: "jsstring option"
  documentType :: "jsstring option"
  category :: jsstring
  subtype :: "jsstring option"
  confidence_score :: jsnum

record ClassificationResult =
  country :: jsvalue
  document_type :: jsvalue
  document_category :: jsvalue
  document_subtype :: jsvalue
  status :: status
  confidence_score :: jsvalue

text \<open>Lines 41 to 61: the defaults, the five matches and the assignments.\<close>

definition parse_details :: "jsstring \<Rightarrow> details" where
  "parse_details classificationResult =
     \<lparr>details.country =
        (case regex_match (str ''Country of Origin:'') classificationResult of
           Some g \<Rightarrow> Some (trim g) | None \<Rightarrow> None),
      documentType =
        (case regex_match (str ''Document Type:'') classificationResult of
           Some g \<Rightarrow> Some (trim g) | None \<Rightarrow> None),
      category =
        (case regex_match (str ''Document Category:'') classificationResult of
           Some g \<Rightarrow> trim g | None \<Rightarrow> str ''CompanyDocuments''),
      subtype =
        (case regex_match (str ''Document Subtype:'') classificationResult of
           Some g \<Rightarrow> Some (trim g) | None \<Rightarrow> None),
      details.confidence_score =
        (case regex_match (str ''Confidence Score:'') classificationResult of
           Some g \<Rightarrow> parseFloat (trim g) | None \<Rightarrow> Finite 0)\<rparr>"

text \<open>
  Lines 64 to 66. The empty string is falsy, so an empty country is left as it is; a
  country that names a member of \<^verbatim>\<open>Object.prototype\<close> reads a truthy value and stays.
\<close>

definition validate_country :: "details \<Rightarrow> details" where
  "validate_country d =
     (case details.country d of
        None \<Rightarrow> d
      | Some c \<Rightarrow>
          if c \<noteq> [] \<and> taxSchema_get c = Absent then d\<lparr>details.country := None\<rparr> else d)"

text \<open>
  \<^verbatim>\<open>taxSchema[c]?.[k]?.includes(t)\<close>, as a truth value. On an entry of the taxonomy the
  two categories hold arrays; a key of \<^verbatim>\<open>Object.prototype\<close> reads a value without
  \<^verbatim>\<open>includes\<close>, and calling it throws; any other key reads \<^verbatim>\<open>undefined\<close>, where the
  optional chain stops.
\<close>

definition category_includes ::
  "runtime \<Rightarrow> jsstring \<Rightarrow> jsstring \<Rightarrow> jsstring \<Rightarrow> exception + bool" where
  "category_includes rt c k t =
     (case taxSchema_get c of
        Absent \<Rightarrow> Inr False
      | Own cs \<Rightarrow>
          if k = str ''CompanyDocuments'' then Inr (t \<in> set (CompanyDocuments cs))
          else if k = str ''EmployeeDocuments'' then Inr (t \<in> set (EmployeeDocuments cs))
          else if k \<in> set object_prototype_keys then Inl TypeError
          else Inr False
      | Inherited \<Rightarrow>
          (case builtin_includes rt c k t of
             None \<Rightarrow> Inl TypeError
           | Some b \<Rightarrow> Inr b))"

definition allCategories :: "jsstring list" where
  "allCategories = [str ''CompanyDocuments'', str ''EmployeeDocuments'']"

text \<open>The loop of lines 77 to 83: the first category whose list has the type.\<close>

fun find_category ::
  "runtime \<Rightarrow> jsstring \<Rightarrow> jsstring \<Rightarrow> jsstring list \<Rightarrow> exception + jsstring option" where
  "find_category rt c t [] = Inr None"
| "find_category rt c t (k # ks) =
     (case category_includes rt c k t of
        Inl e \<Rightarrow> Inl e
      | Inr True \<Rightarrow> Inr (Some k)
      | Inr False \<Rightarrow> find_category rt c t ks)"

text \<open>Lines 68 to 87.\<close>

definition validate_type :: "runtime \<Rightarrow> details \<Rightarrow> exception + details" where
  "validate_type rt d =
     (case (details.country d, documentType d) of
        (Some c, Some t) \<Rightarrow>
          if c \<noteq> [] \<and> t \<noteq> [] then
            (case category_includes rt c (category d) t of
               Inl e \<Rightarrow> Inl e
             | Inr True \<Rightarrow> Inr d
             | Inr False \<Rightarrow>
                 (case find_category rt c t allCategories of
                    Inl e \<Rightarrow> Inl e
                  | Inr (Some k) \<Rightarrow> Inr (d\<lparr>category := k\<rparr>)
                  | Inr None \<Rightarrow> Inr (d\<lparr>documentType := None\<rparr>)))
          else Inr d
      | _ \<Rightarrow> Inr d)"

text \<open>
  Lines 90 to 98. \<^verbatim>\<open>details.documentType && details.country\<close> passes
  \<^verbatim>\<open>filter(Boolean)\<close> when both are non-empty strings; the third entry compares with
  \<^verbatim>\<open>null\<close> only.
\<close>

definition truthy :: "jsstring option \<Rightarrow> bool" where
  "truthy v = (case v of None \<Rightarrow> False | Some s \<Rightarrow> s \<noteq> [])"

definition validFields :: "details \<Rightarrow> nat" where
  "validFields d =
     length (filter (\<lambda>b. b)
       [truthy (documentType d) \<and> truthy (details.country d),
        category d = str ''CompanyDocuments'' \<or> category d = str ''EmployeeDocuments'',
        details.country d \<noteq> None])"

definition determine_status :: "details \<Rightarrow> status" where
  "determine_status d =
     (if validFields d \<ge> 2 then classified
      else if validFields d = 1 then pending_review
      else non_classified)"

text \<open>Lines 100 to 107.\<close>

definition text_result :: "details \<Rightarrow> ClassificationResult" where
  "text_result d =
     \<lparr>country = nullable (details.country d),
      document_type = nullable (documentType d),
      document_category = Value (JString (category d)),
      document_subtype = nullable (subtype d),
      status = determine_status d,
      confidence_score = Value (JNumber (details.confidence_score d))\<rparr>"

text \<open>The whole text fallback, lines 40 to 108; \<open>Inl\<close> when it throws.\<close>

definition text_fallback :: "runtime \<Rightarrow> jsstring \<Rightarrow> exception + ClassificationResult" where
  "text_fallback rt classificationResult =
     (case validate_type rt (validate_country (parse_details classificationResult)) of
        Inl e \<Rightarrow> Inl e
      | Inr d \<Rightarrow> Inr (text_result d))"

text \<open>
  Lines 31 to 38, on the value \<^verbatim>\<open>JSON.parse\<close> returned. Reading a property of
  \<^verbatim>\<open>null\<close> throws a TypeError; a number, a string, a boolean and an array have none of
  the five keys, so each read gives \<^verbatim>\<open>undefined\<close>.
\<close>

definition own_property :: "(jsstring \<times> json) list \<Rightarrow> jsstring \<Rightarrow> jsvalue" where
  "own_property kvs key = (case map_of kvs key of None \<Rightarrow> Undefined | Some v \<Rightarrow> Value v)"

definition json_result :: "json \<Rightarrow> exception + ClassificationResult" where
  "json_result jsonResult =
     (case jsonResult of
        JNull \<Rightarrow> Inl TypeError
      | JObject kvs \<Rightarrow>
          Inr \<lparr>country = own_property kvs (str ''Country of Origin''),
               document_type = own_property kvs (str ''Document Type''),
               document_category = own_property kvs (str ''Document Category''),
               document_subtype = own_property kvs (str ''Document Subtype''),
               status = classified,
               confidence_score = own_property kvs (str ''Confidence Score'')\<rparr>
      | _ \<Rightarrow>
          Inr \<lparr>country = Undefined, document_type = Undefined,
               document_category = Undefined, document_subtype = Undefined,
               status = classified, confidence_score = Undefined\<rparr>)"

text \<open>Lines 111 to 118: what the outer \<^verbatim>\<open>catch\<close> returns.\<close>

definition catch_result :: ClassificationResult where
  "catch_result =
     \<lparr>country = Value JNull, document_type = Value JNull,
      document_category = Value (JString (str ''CompanyDocuments'')),
      document_subtype = Value JNull, status = non_classified,
      confidence_score = Value (JNumber (Finite 0))\<rparr>"

text \<open>
  The function, with the branch that produced the result. The inner \<^verbatim>\<open>try\<close> holds
  both \<^verbatim>\<open>JSON.parse\<close> and the property reads, so either failure leads to the text
  fallback; what the fallback throws reaches the outer \<^verbatim>\<open>catch\<close>.
\<close>

datatype branch = JsonBranch | TextBranch | CatchBranch

definition fallback_traced :: "runtime \<Rightarrow> jsstring \<Rightarrow> branch \<times> ClassificationResult" where
  "fallback_traced rt classificationResult =
     (case text_fallback rt classificationResult of
        Inr r \<Rightarrow> (TextBranch, r)
      | Inl e \<Rightarrow> (CatchBranch, catch_result))"

definition extractDocumentDetails_traced ::
  "runtime \<Rightarrow> jsstring \<Rightarrow> branch \<times> ClassificationResult" where
  "extractDocumentDetails_traced rt classificationResult =
     (case json_parse rt classificationResult of
        None \<Rightarrow> fallback_traced rt classificationResult
      | Some jsonResult \<Rightarrow>
          (case json_result jsonResult of
             Inr r \<Rightarrow> (JsonBranch, r)
           | Inl e \<Rightarrow> fallback_traced rt classificationResult))"

definition extractDocumentDetails :: "runtime \<Rightarrow> jsstring \<Rightarrow> ClassificationResult" where
  "extractDocumentDetails rt classificationResult =
     snd (extractDocumentDetails_traced rt classificationResult)"

section \<open>The classifier hook (src/hooks/use-document-classifier.ts)\<close>

text \<open>
  A thrown or rejected \<^verbatim>\<open>Error\<close>, by its message, and a settled promise.
\<close>

datatype js_error = Error (message: jsstring)

datatype 'a settled = Fulfilled 'a | Rejected js_error

definition CACHE_EXPIRATION :: int where
  "CACHE_EXPIRATION = 5 * 60 * 1000"

record cache_entry =
  result :: ClassificationResult
  timestamp :: int

text \<open>
  A request that leaves the hook: \<^verbatim>\<open>fetch(fileUrl)\<close>, or the POST to the model endpoint
  made for that file. The body of the POST (file name, PDF or image part, prompt) is not
  modelled.
\<close>

datatype request = FileFetch jsstring | ModelRequest jsstring

text \<open>
  The state one instance of the hook works on: the module-level
  \<^verbatim>\<open>classificationCache\<close>, which all instances share, the instance's ref
  \<^verbatim>\<open>lastClassificationRef\<close> and two React states, and, as a ghost field, the requests
  issued so far.
\<close>

record classifier_state =
  classificationCache :: "jsstring \<Rightarrow> cache_entry option"
  lastClassificationRef :: "jsstring option"
  isClassifying :: bool
  error :: "jsstring option"
  requests :: "request list"

text \<open>
  What the world answers to one call of \<^verbatim>\<open>classifyDocument\<close>: the clock at line 128 and
  at line 222, the environment variable, \<^verbatim>\<open>fetch(fileUrl)\<close> (rejected, or resolved with
  \<^verbatim>\<open>ok\<close>), reading the blob, and the model endpoint (rejected, or a response).
\<close>

record http_response =
  ok :: bool
  status :: jsstring
  statusText :: jsstring
  text_failure :: "js_error option"
  content :: "js_error + jsstring option"

record classify_world =
  now_lookup :: int
  now_store :: int
  apiKey :: "jsstring option"
  fileResponse :: "js_error + bool"
  fileRead :: "js_error option"
  response :: "js_error + http_response"

text \<open>
  Lines 144 to 219, from the first \<^verbatim>\<open>await\<close> on: the content of the model's answer, or
  the error thrown on the way. \<open>content\<close> is \<^verbatim>\<open>data?.choices?.[0]?.message?.content\<close>
  after \<^verbatim>\<open>response.json()\<close>, \<open>None\<close> when the path is missing; the empty string is
  falsy as well.
\<close>

definition read_content :: "http_response \<Rightarrow> js_error + jsstring" where
  "read_content resp =
     (if \<not> ok resp then
        (case text_failure resp of
           Some e \<Rightarrow> Inl e
         | None \<Rightarrow>
             Inl (Error (str ''OpenRouter API error: '' @ status resp @ [32] @ statusText resp)))
      else
        (case content resp of
           Inl e \<Rightarrow> Inl e
         | Inr None \<Rightarrow> Inl (Error (str ''Invalid response from OpenRouter API''))
         | Inr (Some c) \<Rightarrow>
             if c = [] then Inl (Error (str ''Invalid response from OpenRouter API''))
             else Inr c))"

definition file_loaded :: "classify_world \<Rightarrow> js_error + unit" where
  "file_loaded w =
     (case fileResponse w of
        Inl e \<Rightarrow> Inl e
      | Inr fileOk \<Rightarrow>
          if \<not> fileOk then Inl (Error (str ''File not accessible''))
          else (case fileRead w of Some e \<Rightarrow> Inl e | None \<Rightarrow> Inr ()))"

definition upstream :: "classify_world \<Rightarrow> js_error + jsstring" where
  "upstream w =
     (case file_loaded w of
        Inl e \<Rightarrow> Inl e
      | Inr _ \<Rightarrow>
          (case response w of
             Inl e \<Rightarrow> Inl e
           | Inr resp \<Rightarrow> read_content resp))"

text \<open>The \<^verbatim>\<open>catch\<close> and \<^verbatim>\<open>finally\<close> blocks, lines 225 to 232.\<close>

definition classify_failed ::
  "js_error \<Rightarrow> classifier_state \<Rightarrow> ClassificationResult settled \<times> classifier_state" where
  "classify_failed e s =
     (Rejected e,
      s\<lparr>error := Some (message e), isClassifying := False, lastClassificationRef := None\<rparr>)"

text \<open>
  The call up to its first \<^verbatim>\<open>await\<close>, lines 123 to 144. It settles at once (\<open>Some\<close>) on
  the in-flight guard, on a cache hit and on a missing API key; otherwise it has set the
  marker, has called \<^verbatim>\<open>fetch(fileUrl)\<close> and is suspended (\<open>None\<close>). The two early
  returns stand before the \<^verbatim>\<open>try\<close>, so no \<^verbatim>\<open>finally\<close> runs for them.
\<close>

definition classifyDocument_begin ::
  "classify_world \<Rightarrow> classifier_state \<Rightarrow> jsstring \<Rightarrow>
     ClassificationResult settled option \<times> classifier_state" where
  "classifyDocument_begin w s fileUrl =
     (if lastClassificationRef s = Some fileUrl then
        (Some (Rejected (Error (str ''Classification already in progress''))), s)
      else
        (case (case classificationCache s fileUrl of
                 None \<Rightarrow> None
               | Some cachedResult \<Rightarrow>
                   if now_lookup w - timestamp cachedResult < CACHE_EXPIRATION
                   then Some (result cachedResult) else None) of
           Some r \<Rightarrow> (Some (Fulfilled r), s)
         | None \<Rightarrow>
             (let s1 = s\<lparr>isClassifying := True, error := None,
                         lastClassificationRef := Some fileUrl\<rparr>
              in if \<not> truthy (apiKey w) then
                   (case classify_failed (Error (str ''OpenRouter API key not configured'')) s1 of
                      (out, s2) \<Rightarrow> (Some out, s2))
                 else (None, s1\<lparr>requests := requests s1 @ [FileFetch fileUrl]\<rparr>))))"

text \<open>
  The rest of the call, lines 144 to 232, on the state it finds when it resumes; other
  calls may have run in between. Between the first \<^verbatim>\<open>await\<close> and line 222 the call
  touches no shared state, so the rest is one step of the model.
\<close>

definition classifyDocument_end ::
  "runtime \<Rightarrow> classify_world \<Rightarrow> classifier_state \<Rightarrow> jsstring \<Rightarrow>
     ClassificationResult settled \<times> classifier_state" where
  "classifyDocument_end rt w s fileUrl =
     (let s1 = (case file_loaded w of
                  Inl e \<Rightarrow> s
                | Inr _ \<Rightarrow> s\<lparr>requests := requests s @ [ModelRequest fileUrl]\<rparr>)
      in case upstream w of
           Inl e \<Rightarrow> classify_failed e s1
         | Inr c \<Rightarrow>
             (let r = extractDocumentDetails rt c
              in (Fulfilled r,
                  s1\<lparr>classificationCache :=
                        (classificationCache s1)
                          (fileUrl \<mapsto> \<lparr>result = r, timestamp = now_store w\<rparr>),
                      isClassifying := False,
                      lastClassificationRef := None\<rparr>)))"

text \<open>A call that runs from start to end with no other call in between.\<close>

definition classifyDocument ::
  "runtime \<Rightarrow> classify_world \<Rightarrow> classifier_state \<Rightarrow> jsstring \<Rightarrow>
     ClassificationResult settled \<times> classifier_state" where
  "classifyDocument rt w s fileUrl =
     (case classifyDocument_begin w s fileUrl of
        (Some out, s1) \<Rightarrow> (out, s1)
      | (None, s1) \<Rightarrow> classifyDocument_end rt w s1 fileUrl)"

subsection \<open>batchVerify\<close>

record document =
  id' :: jsstring
  public_url :: jsstring

text \<open>
  The task of one document, lines 253 to 297. The tasks start staggered and interleave
  at their \<^verbatim>\<open>await\<close>s, so each task gets its own answers from the world: the cache and
  the clock when it looks the document up, how its \<^verbatim>\<open>classifyDocument\<close> call settles,
  and the error of the update, if any (the \<^verbatim>\<open>updateError\<close> of its reply; the source
  throws it). The result of the insert into the activity log is not inspected by the
  source.
\<close>

record document_world =
  cache_then :: "jsstring \<Rightarrow> cache_entry option"
  now_then :: int
  classification :: "ClassificationResult settled"
  updateError :: "js_error option"

definition process_document ::
  "document_world \<Rightarrow> document \<Rightarrow> (document \<times> ClassificationResult) settled" where
  "process_document w document =
     (case (case cache_then w (public_url document) of
              None \<Rightarrow> None
            | Some cachedResult \<Rightarrow>
                if now_then w - timestamp cachedResult < CACHE_EXPIRATION
                then Some (result cachedResult) else None) of
        Some r \<Rightarrow> Fulfilled (document, r)
      | None \<Rightarrow>
          (case classification w of
             Rejected e \<Rightarrow> Rejected e
           | Fulfilled classificationResult \<Rightarrow>
               (case updateError w of
                  Some e \<Rightarrow> Rejected e
                | None \<Rightarrow> Fulfilled (document, classificationResult))))"

text \<open>
  \<^verbatim>\<open>Promise.allSettled(documents.map(...))\<close>: one settled outcome per document, in the
  order of the documents; no outcome ends the wait for the others.
\<close>

fun allSettled ::
  "(nat \<Rightarrow> document_world) \<Rightarrow> nat \<Rightarrow> document list \<Rightarrow>
     (document \<times> ClassificationResult) settled list" where
  "allSettled worlds index [] = []"
| "allSettled worlds index (document # documents) =
     process_document (worlds index) document # allSettled worlds (Suc index) documents"

text \<open>
  The decimal digits of a count, as the template literal prints a non-negative integer
  (one of fewer than 22 digits; from there on JavaScript prints an exponent).
\<close>

fun decimal :: "nat \<Rightarrow> jsstring" where
  "decimal n = (if n < 10 then [48 + n] else decimal (n div 10) @ [48 + n mod 10])"

declare decimal.simps [simp del]

definition is_fulfilled :: "'a settled \<Rightarrow> bool" where
  "is_fulfilled r = (case r of Fulfilled _ \<Rightarrow> True | Rejected _ \<Rightarrow> False)"

definition is_rejected :: "'a settled \<Rightarrow> bool" where
  "is_rejected r = (case r of Fulfilled _ \<Rightarrow> False | Rejected _ \<Rightarrow> True)"

record batch_result =
  success :: bool
  error :: "jsstring option"

text \<open>
  What the world answers to \<^verbatim>\<open>batchVerify\<close>. Each of the two awaited calls either
  rejects (\<open>Inl\<close>), or resolves with a reply: \<^verbatim>\<open>getUser\<close> with \<^verbatim>\<open>userError\<close> and the
  user, if any; the query with \<^verbatim>\<open>fetchError\<close> and the rows, if any. Then the answers to
  each task. The function is modelled by the value it returns; what it and the calls
  inside it do to the React states is left to \<open>classifyDocument\<close>.
\<close>

record batch_world =
  getUser :: "js_error + (js_error option \<times> jsstring option)"
  documents :: "js_error + (js_error option \<times> document list option)"
  worlds :: "nat \<Rightarrow> document_world"

text \<open>
  Lines 301 to 307, on the settled outcomes, and the \<^verbatim>\<open>catch\<close> of lines 308 to 311,
  which returns the message of whatever was thrown before the dispatch.
\<close>

definition summarize ::
  "(document \<times> ClassificationResult) settled list \<Rightarrow> batch_result" where
  "summarize results =
     (let successful = length (filter is_fulfilled results);
          failed = length (filter is_rejected results)
      in \<lparr>success = successful > 0,
           error = (if failed > 0
                    then Some (decimal failed @ str '' documents failed to process'')
                    else None)\<rparr>)"

definition batch_failed :: "js_error \<Rightarrow> batch_result" where
  "batch_failed err = \<lparr>success = False, error = Some (message err)\<rparr>"

definition batchVerify :: "batch_world \<Rightarrow> jsstring list \<Rightarrow> batch_result" where
  "batchVerify w documentIds =
     (case getUser w of
        Inl err \<Rightarrow> batch_failed err
      | Inr (userError, user) \<Rightarrow>
          if userError \<noteq> None \<or> user = None
          then batch_failed (Error (str ''Not authenticated''))
          else
            (case documents w of
               Inl err \<Rightarrow> batch_failed err
             | Inr (fetchError, rows) \<Rightarrow>
                 (case rows of
                    None \<Rightarrow> batch_failed (Error (str ''No documents found''))
                  | Some ds \<Rightarrow>
                      if fetchError \<noteq> None \<or> ds = []
                      then batch_failed (Error (str ''No documents found''))
                      else summarize (allSettled (worlds w) 0 ds))))"

section \<open>The chat hook (src/hooks/use-document-chat.ts)\<close>

record ChatMessage =
  id' :: jsstring
  document_id :: jsstring
  user_id :: jsstring
  message :: jsstring
  is_user :: bool
  created_at :: jsstring

definition CHAT_CACHE_EXPIRATION :: int where
  "CHAT_CACHE_EXPIRATION = 60 * 1000"

record chat_cache_entry =
  messages :: "ChatMessage list"
  timestamp :: int

record chat_state =
  chatHistoryCache :: "jsstring \<Rightarrow> chat_cache_entry option"
  lastFetchRef :: "jsstring option"
  messages :: "ChatMessage list"
  error :: "jsstring option"
  isSending :: bool

text \<open>
  What the world answers to one call of \<^verbatim>\<open>getChatHistory\<close>: the clock at line 41 and at
  line 60, and the query, which fails (an \<^verbatim>\<open>error\<close> in the reply, thrown at line 55, or a
  rejected promise) or delivers the rows.
\<close>

record history_world =
  now_lookup :: int
  now_store :: int
  query :: "js_error + ChatMessage list"

text \<open>Lines 35 to 53, up to the \<^verbatim>\<open>await\<close>.\<close>

definition getChatHistory_begin ::
  "history_world \<Rightarrow> chat_state \<Rightarrow> jsstring \<Rightarrow>
     ChatMessage list settled option \<times> chat_state" where
  "getChatHistory_begin w s documentId =
     (if lastFetchRef s = Some documentId then (Some (Fulfilled (chat_state.messages s)), s)
      else
        (case (case chatHistoryCache s documentId of
                 None \<Rightarrow> None
               | Some cachedHistory \<Rightarrow>
                   if history_world.now_lookup w - chat_cache_entry.timestamp cachedHistory
                        < CHAT_CACHE_EXPIRATION
                   then Some (chat_cache_entry.messages cachedHistory) else None) of
           Some ms \<Rightarrow> (Some (Fulfilled ms), s\<lparr>chat_state.messages := ms\<rparr>)
         | None \<Rightarrow> (None, s\<lparr>lastFetchRef := Some documentId\<rparr>)))"

text \<open>Lines 55 to 71, on the state the call finds when the query has answered.\<close>

definition getChatHistory_end ::
  "history_world \<Rightarrow> chat_state \<Rightarrow> jsstring \<Rightarrow> ChatMessage list settled \<times> chat_state" where
  "getChatHistory_end w s documentId =
     (case query w of
        Inl err \<Rightarrow>
          (Fulfilled [],
           s\<lparr>chat_state.error := Some (js_error.message err), lastFetchRef := None\<rparr>)
      | Inr data \<Rightarrow>
          (Fulfilled data,
           s\<lparr>chatHistoryCache :=
                (chatHistoryCache s)
                  (documentId \<mapsto>
                     \<lparr>chat_cache_entry.messages = data,
                      chat_cache_entry.timestamp = history_world.now_store w\<rparr>),
              chat_state.messages := data,
              lastFetchRef := None\<rparr>))"

definition getChatHistory ::
  "history_world \<Rightarrow> chat_state \<Rightarrow> jsstring \<Rightarrow> ChatMessage list settled \<times> chat_state" where
  "getChatHistory w s documentId =
     (case getChatHistory_begin w s documentId of
        (Some out, s1) \<Rightarrow> (out, s1)
      | (None, s1) \<Rightarrow> getChatHistory_end w s1 documentId)"

section \<open>The status policy and the validator in the words of the specification\<close>

text \<open>
  The three conditions of the status policy, read off a result: (a) type and country are
  both non-empty strings, (b) the category is one of the two enumeration values, (c) the
  country is not \<^verbatim>\<open>null\<close>. \<open>claimed_status_policy\<close> reads (a) as the specification
  words it, type and country both different from \<^verbatim>\<open>null\<close>.
\<close>

definition nonempty_string :: "jsvalue \<Rightarrow> bool" where
  "nonempty_string v = (case v of Value (JString s) \<Rightarrow> s \<noteq> [] | _ \<Rightarrow> False)"

definition recognized_category :: "jsvalue \<Rightarrow> bool" where
  "recognized_category v \<longleftrightarrow>
     v = Value (JString (str ''CompanyDocuments'')) \<or>
     v = Value (JString (str ''EmployeeDocuments''))"

definition status_of_count :: "nat \<Rightarrow> status" where
  "status_of_count n =
     (if n \<ge> 2 then classified else if n = 1 then pending_review else non_classified)"

definition status_policy :: "ClassificationResult \<Rightarrow> status" where
  "status_policy r =
     status_of_count (length (filter (\<lambda>b. b)
       [nonempty_string (document_type r) \<and> nonempty_string (ClassificationResult.country r),
        recognized_category (document_category r),
        ClassificationResult.country r \<noteq> Value JNull]))"

definition claimed_status_policy :: "ClassificationResult \<Rightarrow> status" where
  "claimed_status_policy r =
     status_of_count (length (filter (\<lambda>b. b)
       [document_type r \<noteq> Value JNull \<and> ClassificationResult.country r \<noteq> Value JNull,
        recognized_category (document_category r),
        ClassificationResult.country r \<noteq> Value JNull]))"

text \<open>
  \<^verbatim>\<open>taxonomy[country][category]\<close> for a category of the enumeration, and the other
  category of the two.
\<close>

definition category_types :: "country_schema \<Rightarrow> jsstring \<Rightarrow> jsstring list" where
  "category_types cs k =
     (if k = str ''CompanyDocuments'' then CompanyDocuments cs else EmployeeDocuments cs)"

definition other_category :: "jsstring \<Rightarrow> jsstring" where
  "other_category k =
     (if k = str ''CompanyDocuments'' then str ''EmployeeDocuments''
      else str ''CompanyDocuments'')"

definition known_types :: "jsstring list" where
  "known_types = concat (map (\<lambda>(c, cs). CompanyDocuments cs @ EmployeeDocuments cs) taxSchema)"

text \<open>
  A document of a batch has succeeded, in the words of the specification, when its task
  found a result for its file in the cache that was less than five minutes old, or its
  classification was fulfilled and the update of its record raised no error.
\<close>

definition fresh_entry :: "document_world \<Rightarrow> document \<Rightarrow> bool" where
  "fresh_entry w d \<longleftrightarrow>
     (\<exists>e. cache_then w (public_url d) = Some e \<and>
          now_then w - cache_entry.timestamp e < CACHE_EXPIRATION)"

definition document_succeeded :: "document_world \<Rightarrow> document \<Rightarrow> bool" where
  "document_succeeded w d \<longleftrightarrow>
     fresh_entry w d \<or> (\<exists>r. classification w = Fulfilled r) \<and> updateError w = None"

section \<open>Example responses\<close>

text \<open>
  An engine on the responses used below: \<^verbatim>\<open>JSON.parse\<close> decodes the one JSON text and
  throws on the others, none of which is JSON.
\<close>

definition quoted :: "jsstring \<Rightarrow> jsstring" where
  "quoted s = [34] @ s @ [34]"

definition example_json_text :: jsstring where
  "example_json_text =
     str ''{'' @ quoted (str ''Country of Origin'') @ str '':'' @ quoted (str ''India'') @
     str '','' @ quoted (str ''Document Type'') @ str '':'' @
     quoted (str ''Totally Unknown Doc'') @
     str '','' @ quoted (str ''Document Category'') @ str '':'' @
     quoted (str ''CompanyDocuments'') @
     str '','' @ quoted (str ''Confidence Score'') @ str '':0.5}''"

definition example_properties :: "(jsstring \<times> json) list" where
  "example_properties =
     [(str ''Country of Origin'', JString (str ''India'')),
      (str ''Document Type'', JString (str ''Totally Unknown Doc'')),
      (str ''Document Category'', JString (str ''CompanyDocuments'')),
      (str ''Confidence Score'', JNumber (Finite (1 / 2)))]"

definition example_json :: json where
  "example_json = JObject example_properties"

definition example_runtime :: runtime where
  "example_runtime =
     \<lparr>json_parse = (\<lambda>s. if s = example_json_text then Some example_json else None),
      builtin_includes = (\<lambda>c k t. None)\<rparr>"

text \<open>
  The scenario of the specification: a complete answer in the text format. The score is
  the double nearest to 0.92.
\<close>

definition scenario_text :: jsstring where
  "scenario_text =
     str ''Country of Origin: India'' @ [10] @ str ''Document Type: PAN Card'' @ [10] @
     str ''Document Category: CompanyDocuments'' @ [10] @ str ''Confidence Score: 0.92''"

definition scenario_result :: ClassificationResult where
  "scenario_result =
     \<lparr>country = Value (JString (str ''India'')),
      document_type = Value (JString (str ''PAN Card'')),
      document_category = Value (JString (str ''CompanyDocuments'')),
      document_subtype = Value JNull,
      status = classified,
      confidence_score =
        Value (JNumber (Finite (8286623314361713 / 9007199254740992)))\<rparr>"

text \<open>
  An answer that puts the type in Markdown emphasis and names a category outside the
  enumeration. The group cannot start at the asterisk, so the star gives the blank back
  and the group captures the blank alone; trimmed, the type is the empty string.
\<close>

definition emphasis_text :: jsstring where
  "emphasis_text =
     str ''Country of Origin: India'' @ [10] @ str ''Document Type: *unknown*'' @ [10] @
     str ''Document Category: Other''"

definition emphasis_result :: ClassificationResult where
  "emphasis_result =
     \<lparr>country = Value (JString (str ''India'')),
      document_type = Value (JString []),
      document_category = Value (JString (str ''Other'')),
      document_subtype = Value JNull,
      status = pending_review,
      confidence_score = Value (JNumber (Finite 0))\<rparr>"

text \<open>
  Candidates for the validator: a type that no list of the country has, a type listed
  under the other category, and the empty type of an emphasised answer.
\<close>

definition unknown_type_candidate :: details where
  "unknown_type_candidate =
     \<lparr>details.country = Some (str ''India''),
      documentType = Some (str ''Totally Unknown Doc''),
      category = str ''CompanyDocuments'',
      subtype = None,
      details.confidence_score = Finite 0\<rparr>"

definition aadhaar_candidate :: details where
  "aadhaar_candidate =
     \<lparr>details.country = Some (str ''India''),
      documentType = Some (str ''Aadhaar Card''),
      category = str ''CompanyDocuments'',
      subtype = None,
      details.confidence_score = Finite 0\<rparr>"

definition empty_type_text :: jsstring where
  "empty_type_text =
     str ''Country of Origin: India'' @ [10] @ str ''Document Type: *unknown*''"

definition empty_type_candidate :: details where
  "empty_type_candidate =
     \<lparr>details.country = Some (str ''India''),
      documentType = Some [],
      category = str ''CompanyDocuments'',
      subtype = None,
      details.confidence_score = Finite 0\<rparr>"

text \<open>An answer without the category and confidence lines.\<close>

definition aadhaar_text :: jsstring where
  "aadhaar_text =
     str ''Country of Origin: India'' @ [10] @ str ''Document Type: Aadhaar Card''"

definition aadhaar_result :: ClassificationResult where
  "aadhaar_result =
     \<lparr>country = Value (JString (str ''India'')),
      document_type = Value (JString (str ''Aadhaar Card'')),
      document_category = Value (JString (str ''EmployeeDocuments'')),
      document_subtype = Value JNull,
      status = classified,
      confidence_score = Value (JNumber (Finite 0))\<rparr>"

text \<open>An answer with a category outside the enumeration, and one with a worded score.\<close>

definition foo_category_text :: jsstring where
  "foo_category_text = str ''Document Category: Foo''"

definition foo_category_result :: ClassificationResult where
  "foo_category_result =
     \<lparr>country = Value JNull,
      document_type = Value JNull,
      document_category = Value (JString (str ''Foo'')),
      document_subtype = Value JNull,
      status = non_classified,
      confidence_score = Value (JNumber (Finite 0))\<rparr>"

definition high_confidence_text :: jsstring where
  "high_confidence_text = str ''Confidence Score: high''"

definition high_confidence_result :: ClassificationResult where
  "high_confidence_result =
     \<lparr>country = Value JNull,
      document_type = Value JNull,
      document_category = Value (JString (str ''CompanyDocuments'')),
      document_subtype = Value JNull,
      status = pending_review,
      confidence_score = Value (JNumber NaN)\<rparr>"

text \<open>States and answers of the world for the classifier hook.\<close>

definition example_url :: jsstring where
  "example_url = str ''https://files.example/pan.pdf''"

definition idle_state :: classifier_state where
  "idle_state =
     \<lparr>classificationCache = (\<lambda>url. None),
      lastClassificationRef = None,
      isClassifying = False,
      classifier_state.error = None,
      requests = []\<rparr>"

definition answering :: "jsstring \<Rightarrow> http_response" where
  "answering c =
     \<lparr>ok = True, status = str ''200'', statusText = str ''OK'', text_failure = None,
      content = Inr (Some c)\<rparr>"

definition world_at :: "int \<Rightarrow> int \<Rightarrow> jsstring \<Rightarrow> classify_world" where
  "world_at t_lookup t_store c =
     \<lparr>classify_world.now_lookup = t_lookup,
      classify_world.now_store = t_store,
      apiKey = Some (str ''sk-example''),
      fileResponse = Inr True,
      fileRead = None,
      response = Inr (answering c)\<rparr>"

definition cached_state :: classifier_state where
  "cached_state =
     \<lparr>classificationCache =
        (\<lambda>url. None)(example_url \<mapsto>
          \<lparr>result = scenario_result, cache_entry.timestamp = 1000\<rparr>),
      lastClassificationRef = None,
      isClassifying = False,
      classifier_state.error = None,
      requests = [FileFetch example_url, ModelRequest example_url]\<rparr>"


definition busy_state :: classifier_state where
  "busy_state =
     \<lparr>classificationCache = (\<lambda>url. None),
      lastClassificationRef = Some example_url,
      isClassifying = True,
      classifier_state.error = None,
      requests = [FileFetch example_url]\<rparr>"

text \<open>A batch of three documents whose second classification fails upstream.\<close>

definition example_documents :: "document list" where
  "example_documents =
     [\<lparr>document.id' = str ''d1'', public_url = str ''https://files.example/a.pdf''\<rparr>,
      \<lparr>document.id' = str ''d2'', public_url = str ''https://files.example/b.pdf''\<rparr>,
      \<lparr>document.id' = str ''d3'', public_url = str ''https://files.example/c.png''\<rparr>]"

definition upstream_failure :: js_error where
  "upstream_failure = Error (str ''OpenRouter API error: 500 Internal Server Error'')"

definition example_batch :: batch_world where
  "example_batch =
     \<lparr>getUser = Inr (None, Some (str ''u1'')),
      documents = Inr (None, Some example_documents),
      worlds = (\<lambda>i.
        \<lparr>cache_then = (\<lambda>url. None),
         now_then = 1000 * int i,
         classification =
           (if i = 1 then Rejected upstream_failure else Fulfilled scenario_result),
         updateError = None\<rparr>)\<rparr>"

text \<open>
  A batch of thirteen documents that share one file. The first is served from the cache;
  of the others, those at an odd index fail in the classification and those at an even
  index in the update.
\<close>

definition shared_document :: document where
  "shared_document = \<lparr>document.id' = str ''d'', public_url = example_url\<rparr>"

definition thirteen_documents :: "document list" where
  "thirteen_documents =
     [shared_document, shared_document, shared_document, shared_document, shared_document,
      shared_document, shared_document, shared_document, shared_document, shared_document,
      shared_document, shared_document, shared_document]"

definition failing_task :: "nat \<Rightarrow> document_world" where
  "failing_task i =
     \<lparr>cache_then =
        (if i = 0 then classificationCache cached_state else (\<lambda>url. None)),
      now_then = 2000 + 1000 * int i,
      classification =
        (if odd i then Rejected upstream_failure else Fulfilled scenario_result),
      updateError =
        (if odd i then None else Some (Error (str ''permission denied for table documents'')))\<rparr>"

definition twelve_failures :: batch_world where
  "twelve_failures =
     \<lparr>getUser = Inr (None, Some (str ''u1'')),
      documents = Inr (None, Some thirteen_documents),
      worlds = failing_task\<rparr>"

text \<open>Batches that end before the dispatch.\<close>

definition no_session :: batch_world where
  "no_session =
     \<lparr>getUser = Inr (Some (Error (str ''Auth session missing!'')), None),
      documents = Inr (None, Some example_documents),
      worlds = failing_task\<rparr>"

definition offline :: batch_world where
  "offline =
     \<lparr>getUser = Inl (Error (str ''Failed to fetch'')),
      documents = Inr (None, Some example_documents),
      worlds = failing_task\<rparr>"

text \<open>A chat state with a stale transcript in the cache, and a query that fails.\<close>

definition example_message :: ChatMessage where
  "example_message =
     \<lparr>id' = str ''m1'', document_id = str ''d1'', user_id = str ''u1'',
      message = str ''What is this document?'', is_user = True,
      created_at = str ''2025-01-01T00:00:00Z''\<rparr>"

definition example_chat :: chat_state where
  "example_chat =
     \<lparr>chatHistoryCache =
        (\<lambda>d. None)(str ''d1'' \<mapsto>
          \<lparr>chat_cache_entry.messages = [example_message], chat_cache_entry.timestamp = 0\<rparr>),
      lastFetchRef = None,
      chat_state.messages = [example_message],
      chat_state.error = None,
      isSending = False\<rparr>"

definition failing_history :: history_world where
  "failing_history =
     \<lparr>history_world.now_lookup = 90000,
      history_world.now_store = 90500,
      query = Inl (Error (str ''permission denied for table document_chat''))\<rparr>"

text \<open>
  An answer whose category names a member of \<^verbatim>\<open>Object.prototype\<close>: the validator reads
  a function under that key and throws when it calls \<^verbatim>\<open>includes\<close> on it.
\<close>

definition constructor_text :: jsstring where
  "constructor_text =
     str ''Country of Origin: India'' @ [10] @ str ''Document Type: Nonexistent'' @ [10] @
     str ''Document Category: constructor'' @ [10] @ str ''Confidence Score: 0.9''"

section \<open>Evaluation\<close>

lemmas string_eval = str_def is_space_def trim_def canonicalize_def capture_char_def
  match_capture_def match_at_def Let_def

lemmas number_eval = is_digit_def digits_value_def exponent_value_def unsigned_literal_def
  parseFloat_def negate_def pow2_def floor_log2_def round_ratio_def nearest_double_def

lemmas taxonomy_eval = taxSchema_def taxSchema_get_def object_prototype_keys_def
  India_def Germany_def China_def USA_def Japan_def UAE_def category_includes_def
  allCategories_def

lemmas fallback_eval = parse_details_def validate_country_def validate_type_def truthy_def
  validFields_def determine_status_def text_result_def text_fallback_def nullable_def

lemma scenario_eval: "text_fallback example_runtime scenario_text = Inr scenario_result"
  by (simp add: scenario_text_def scenario_result_def string_eval number_eval taxonomy_eval
        fallback_eval)

lemma emphasis_eval: "text_fallback example_runtime emphasis_text = Inr emphasis_result"
  by (simp add: emphasis_text_def emphasis_result_def string_eval number_eval taxonomy_eval
        fallback_eval)

lemma aadhaar_eval: "text_fallback example_runtime aadhaar_text = Inr aadhaar_result"
  by (simp add: aadhaar_text_def aadhaar_result_def string_eval number_eval taxonomy_eval
        fallback_eval)

lemma foo_category_eval:
  "text_fallback example_runtime foo_category_text = Inr foo_category_result"
  by (simp add: foo_category_text_def foo_category_result_def string_eval number_eval
        taxonomy_eval fallback_eval)

lemma high_confidence_eval:
  "text_fallback example_runtime high_confidence_text = Inr high_confidence_result"
  by (simp add: high_confidence_text_def high_confidence_result_def string_eval number_eval
        taxonomy_eval fallback_eval)

lemma empty_type_parse:
  "validate_country (parse_details empty_type_text) = empty_type_candidate"
  by (simp add: empty_type_text_def empty_type_candidate_def string_eval number_eval
        taxonomy_eval parse_details_def validate_country_def)

lemma example_json_parse:
  "json_parse example_runtime example_json_text = Some example_json"
  by (simp add: example_runtime_def)

lemma scenario_not_json: "json_parse example_runtime scenario_text = None"
  by (simp add: example_runtime_def scenario_text_def example_json_text_def str_def)

lemma scenario_traced:
  "extractDocumentDetails_traced example_runtime scenario_text = (TextBranch, scenario_result)"
  by (simp add: extractDocumentDetails_traced_def scenario_not_json fallback_traced_def
        scenario_eval)

section \<open>The status policy\<close>

lemma status_policy_text_result: "status_policy (text_result d) = determine_status d"
  unfolding status_policy_def text_result_def determine_status_def validFields_def
    status_of_count_def nonempty_string_def recognized_category_def nullable_def truthy_def
  by (cases "documentType d"; cases "details.country d") simp_all

text \<open>
  Claim C1, as amended. Every result the text fallback returns has the status the policy
  gives to its own fields: \<open>classified\<close> when at least two of the three conditions hold,
  \<open>pending_review\<close> when exactly one holds, \<open>non_classified\<close> when none holds, where
  condition (a) asks for a type and a country that are non-empty strings, not merely
  different from \<^verbatim>\<open>null\<close>.
\<close>

theorem status_follows_policy:
  assumes "text_fallback rt classificationResult = Inr r"
  shows "ClassificationResult.status r = status_policy r"
proof -
  from assms obtain d where "r = text_result d"
    unfolding text_fallback_def by (auto split: sum.splits)
  then show ?thesis
    by (simp add: status_policy_text_result) (simp add: text_result_def)
qed

theorem status_follows_policy_witness:
  "text_fallback example_runtime scenario_text = Inr scenario_result \<and>
   ClassificationResult.status scenario_result = status_policy scenario_result \<and>
   ClassificationResult.status scenario_result = classified"
  using status_follows_policy [OF scenario_eval] scenario_eval
  by (simp add: scenario_result_def)

text \<open>
  Claim C1 as the specification states it fails on the emphasised answer: the type is the
  empty string, which is not \<^verbatim>\<open>null\<close>, so the stated conditions (a) and (c) hold and the
  stated policy says \<open>classified\<close>; the code counts the empty string as missing and
  returns \<open>pending_review\<close>.
\<close>

theorem claimed_status_policy_counterexample:
  "text_fallback example_runtime emphasis_text = Inr emphasis_result \<and>
   ClassificationResult.status emphasis_result = pending_review \<and>
   claimed_status_policy emphasis_result = classified"
  using emphasis_eval
  by (simp add: emphasis_result_def claimed_status_policy_def status_of_count_def
        recognized_category_def str_def)

section \<open>The taxonomy validator\<close>

lemma taxSchema_get_empty: "taxSchema_get [] = Absent"
  by (simp add: taxSchema_get_def taxSchema_def object_prototype_keys_def str_def)

lemma taxSchema_get_India: "taxSchema_get (str ''India'') = Own India"
  by (simp add: taxSchema_get_def taxSchema_def)

lemma category_includes_own:
  assumes "taxSchema_get c = Own cs" and "k \<in> set allCategories"
  shows "category_includes rt c k t = Inr (t \<in> set (category_types cs k))"
  using assms
  by (auto simp: category_includes_def category_types_def allCategories_def)

lemma unknown_not_company:
  "str ''Totally Unknown Doc'' \<notin> set (category_types India (str ''CompanyDocuments''))"
  by (simp add: category_types_def India_def str_def)

lemma aadhaar_not_company:
  "str ''Aadhaar Card'' \<notin> set (category_types India (str ''CompanyDocuments''))"
  by (simp add: category_types_def India_def str_def)

text \<open>
  Claim C2, as amended. For a candidate whose country is a key of the taxonomy, whose
  category is one of the two categories and whose type is a non-empty string that the
  list of that category does not have: when the list of the other category has the type,
  the validator sets the category to the other category and changes nothing else;
  otherwise it sets the type to \<^verbatim>\<open>null\<close> and changes nothing else, so the country stays.
\<close>

theorem validate_type_repair:
  assumes "details.country d = Some c" and "taxSchema_get c = Own cs"
    and "documentType d = Some t" and "t \<noteq> []"
    and "category d \<in> set allCategories"
    and "t \<notin> set (category_types cs (category d))"
  shows "validate_type rt d =
           Inr (if t \<in> set (category_types cs (other_category (category d)))
                then d\<lparr>category := other_category (category d)\<rparr>
                else d\<lparr>documentType := None\<rparr>)"
proof -
  have c: "c \<noteq> []"
    using assms(2) taxSchema_get_empty by auto
  have first: "category_includes rt c (category d) t = Inr False"
    using assms(2,5,6) by (simp add: category_includes_own)
  have inc: "\<And>k. k \<in> set allCategories \<Longrightarrow>
      category_includes rt c k t = Inr (t \<in> set (category_types cs k))"
    using assms(2) by (simp add: category_includes_own)
  have company: "str ''CompanyDocuments'' \<in> set allCategories"
    and employee: "str ''EmployeeDocuments'' \<in> set allCategories"
    by (simp_all add: allCategories_def)
  have ne: "str ''CompanyDocuments'' \<noteq> str ''EmployeeDocuments''"
    by (simp add: str_def)
  consider (co) "category d = str ''CompanyDocuments''"
    | (em) "category d = str ''EmployeeDocuments''"
    using assms(5) by (auto simp: allCategories_def)
  then show ?thesis
  proof cases
    case co
    with assms(6) have "find_category rt c t allCategories =
        Inr (if t \<in> set (category_types cs (str ''EmployeeDocuments''))
             then Some (str ''EmployeeDocuments'') else None)"
      by (simp add: allCategories_def inc [OF company] inc [OF employee])
    with co first c assms(1,3,4) show ?thesis
      by (simp add: validate_type_def other_category_def)
  next
    case em
    with assms(6) have "find_category rt c t allCategories =
        Inr (if t \<in> set (category_types cs (str ''CompanyDocuments''))
             then Some (str ''CompanyDocuments'') else None)"
      by (simp add: allCategories_def inc [OF company] inc [OF employee])
    with em first c assms(1,3,4) ne show ?thesis
      by (simp add: validate_type_def other_category_def)
  qed
qed

theorem validate_type_repair_witness:
  "validate_type example_runtime unknown_type_candidate =
     Inr (unknown_type_candidate\<lparr>documentType := None\<rparr>) \<and>
   validate_type example_runtime aadhaar_candidate =
     Inr (aadhaar_candidate\<lparr>category := str ''EmployeeDocuments''\<rparr>)"
proof
  have "validate_type example_runtime unknown_type_candidate =
      Inr (if str ''Totally Unknown Doc'' \<in>
              set (category_types India (other_category (category unknown_type_candidate)))
           then unknown_type_candidate
                  \<lparr>category := other_category (category unknown_type_candidate)\<rparr>
           else unknown_type_candidate\<lparr>documentType := None\<rparr>)"
    by (rule validate_type_repair [where c = "str ''India''"])
       (simp_all add: unknown_type_candidate_def taxSchema_get_India allCategories_def
          unknown_not_company, simp add: str_def)
  then show "validate_type example_runtime unknown_type_candidate =
      Inr (unknown_type_candidate\<lparr>documentType := None\<rparr>)"
    by (simp add: unknown_type_candidate_def other_category_def category_types_def India_def
          str_def)
next
  have "validate_type example_runtime aadhaar_candidate =
      Inr (if str ''Aadhaar Card'' \<in>
              set (category_types India (other_category (category aadhaar_candidate)))
           then aadhaar_candidate\<lparr>category := other_category (category aadhaar_candidate)\<rparr>
           else aadhaar_candidate\<lparr>documentType := None\<rparr>)"
    by (rule validate_type_repair [where c = "str ''India''"])
       (simp_all add: aadhaar_candidate_def taxSchema_get_India allCategories_def
          aadhaar_not_company, simp add: str_def)
  then show "validate_type example_runtime aadhaar_candidate =
      Inr (aadhaar_candidate\<lparr>category := str ''EmployeeDocuments''\<rparr>)"
    by (simp add: aadhaar_candidate_def other_category_def category_types_def India_def
          str_def)
qed

text \<open>
  Claim C2 as the specification states it fails on the candidate parsed from an answer
  whose type is emphasised: the country is a key of the taxonomy, the type is the empty
  string, which is not \<^verbatim>\<open>null\<close> and is in neither list of the country, and the validator
  leaves the candidate as it is instead of setting the type to \<^verbatim>\<open>null\<close>.
\<close>

theorem empty_type_not_nulled_counterexample:
  "validate_country (parse_details empty_type_text) = empty_type_candidate \<and>
   details.country empty_type_candidate = Some (str ''India'') \<and>
   taxSchema_get (str ''India'') = Own India \<and>
   documentType empty_type_candidate = Some [] \<and>
   [] \<notin> set (category_types India (category empty_type_candidate)) \<and>
   [] \<notin> set (category_types India (other_category (category empty_type_candidate))) \<and>
   validate_type example_runtime empty_type_candidate = Inr empty_type_candidate \<and>
   documentType empty_type_candidate \<noteq> None"
  using empty_type_parse taxSchema_get_India
  by (simp add: empty_type_candidate_def validate_type_def category_types_def
        other_category_def India_def str_def)

section \<open>Structured responses\<close>

lemma unknown_type_unknown: "str ''Totally Unknown Doc'' \<notin> set known_types"
  by (simp add: known_types_def taxSchema_def India_def Germany_def China_def USA_def
        Japan_def UAE_def str_def)

text \<open>
  Claim C3. When the response decodes to a JSON object, the function returns through the
  JSON branch: each field is the value read under its key, unchanged, and the status is
  \<open>classified\<close>; the taxonomy is never consulted. The function leaves the JSON branch
  only when \<^verbatim>\<open>JSON.parse\<close> throws or returns \<^verbatim>\<open>null\<close>, which has no keys to read.
\<close>

theorem json_response_trusted:
  "(json_parse rt classificationResult = Some (JObject kvs) \<longrightarrow>
      extractDocumentDetails_traced rt classificationResult =
        (JsonBranch,
         \<lparr>country = own_property kvs (str ''Country of Origin''),
          document_type = own_property kvs (str ''Document Type''),
          document_category = own_property kvs (str ''Document Category''),
          document_subtype = own_property kvs (str ''Document Subtype''),
          status = classified,
          confidence_score = own_property kvs (str ''Confidence Score'')\<rparr>)) \<and>
   (fst (extractDocumentDetails_traced rt classificationResult) \<noteq> JsonBranch \<longrightarrow>
      json_parse rt classificationResult = None \<or>
      json_parse rt classificationResult = Some JNull)"
proof (intro conjI impI)
  assume "json_parse rt classificationResult = Some (JObject kvs)"
  then show "extractDocumentDetails_traced rt classificationResult =
        (JsonBranch,
         \<lparr>country = own_property kvs (str ''Country of Origin''),
          document_type = own_property kvs (str ''Document Type''),
          document_category = own_property kvs (str ''Document Category''),
          document_subtype = own_property kvs (str ''Document Subtype''),
          status = classified,
          confidence_score = own_property kvs (str ''Confidence Score'')\<rparr>)"
    by (simp add: extractDocumentDetails_traced_def json_result_def)
next
  assume other: "fst (extractDocumentDetails_traced rt classificationResult) \<noteq> JsonBranch"
  show "json_parse rt classificationResult = None \<or>
      json_parse rt classificationResult = Some JNull"
  proof (cases "json_parse rt classificationResult")
    case None
    then show ?thesis by simp
  next
    case (Some j)
    with other show ?thesis
      by (cases j) (simp_all add: extractDocumentDetails_traced_def json_result_def)
  qed
qed

theorem json_response_trusted_witness:
  "extractDocumentDetails_traced example_runtime example_json_text =
     (JsonBranch,
      \<lparr>country = Value (JString (str ''India'')),
       document_type = Value (JString (str ''Totally Unknown Doc'')),
       document_category = Value (JString (str ''CompanyDocuments'')),
       document_subtype = Undefined,
       status = classified,
       confidence_score = Value (JNumber (Finite (1 / 2)))\<rparr>) \<and>
   str ''Totally Unknown Doc'' \<notin> set known_types \<and>
   fst (extractDocumentDetails_traced example_runtime scenario_text) = TextBranch \<and>
   json_parse example_runtime scenario_text = None"
proof -
  have "extractDocumentDetails_traced example_runtime example_json_text =
     (JsonBranch,
      \<lparr>country = own_property example_properties (str ''Country of Origin''),
       document_type = own_property example_properties (str ''Document Type''),
       document_category = own_property example_properties (str ''Document Category''),
       document_subtype = own_property example_properties (str ''Document Subtype''),
       status = classified,
       confidence_score = own_property example_properties (str ''Confidence Score'')\<rparr>)"
    using json_response_trusted [of example_runtime example_json_text example_properties]
      example_json_parse
    by (simp add: example_json_def)
  moreover have "json_parse example_runtime scenario_text = None \<or>
      json_parse example_runtime scenario_text = Some JNull"
    using json_response_trusted [of example_runtime scenario_text] scenario_traced by simp
  ultimately show ?thesis
    using unknown_type_unknown scenario_traced scenario_not_json
    by (simp add: own_property_def example_properties_def str_def)
qed

section \<open>Category and confidence of the text fallback\<close>

lemma validate_country_category [simp]: "category (validate_country d) = category d"
  by (simp add: validate_country_def split: option.splits)

lemma validate_country_confidence [simp]:
  "details.confidence_score (validate_country d) = details.confidence_score d"
  by (simp add: validate_country_def split: option.splits)

lemma find_category_all:
  assumes "find_category rt c t allCategories = Inr (Some k)"
  shows "(k = str ''CompanyDocuments'' \<and>
            category_includes rt c (str ''CompanyDocuments'') t = Inr True) \<or>
         (k = str ''EmployeeDocuments'' \<and>
            category_includes rt c (str ''CompanyDocuments'') t = Inr False \<and>
            category_includes rt c (str ''EmployeeDocuments'') t = Inr True)"
  using assms
  by (auto simp: allCategories_def split: sum.splits bool.splits)

lemma validate_type_cases:
  assumes "validate_type rt d0 = Inr d"
  shows "d = d0 \<or> d = d0\<lparr>documentType := None\<rparr> \<or>
    (\<exists>c t k. details.country d0 = Some c \<and> documentType d0 = Some t \<and>
       d = d0\<lparr>category := k\<rparr> \<and> find_category rt c t allCategories = Inr (Some k))"
  using assms
  by (auto simp: validate_type_def split: option.splits if_splits sum.splits bool.splits)

lemma validate_type_confidence:
  assumes "validate_type rt d0 = Inr d"
  shows "details.confidence_score d = details.confidence_score d0"
  using validate_type_cases [OF assms] by auto

text \<open>
  The validator throws only while it looks the type up: country and type are non-empty
  strings, and the read under the captured category, or under one of the two categories
  in the loop, throws.
\<close>

lemma validate_type_throws:
  assumes "validate_type rt d0 = Inl e"
  shows "\<exists>c t. details.country d0 = Some c \<and> documentType d0 = Some t \<and> c \<noteq> [] \<and> t \<noteq> [] \<and>
           (category_includes rt c (category d0) t = Inl TypeError \<or>
            category_includes rt c (category d0) t = Inr False \<and>
            find_category rt c t allCategories = Inl TypeError)"
  using assms
  by (cases e)
     (auto simp: validate_type_def split: option.splits if_splits sum.splits bool.splits
        exception.splits)

text \<open>
  On a country that is a key of the taxonomy the validator throws exactly when the type
  is a non-empty string and the captured category names a member of
  \<^verbatim>\<open>Object.prototype\<close>.
\<close>

lemma validate_type_throws_own:
  assumes "details.country d0 = Some c" and "taxSchema_get c = Own cs"
  shows "validate_type rt d0 = Inl TypeError \<longleftrightarrow>
           (\<exists>t. documentType d0 = Some t \<and> t \<noteq> [] \<and> category d0 \<in> set object_prototype_keys)"
proof -
  have c: "c \<noteq> []"
    using assms(2) by (auto simp: taxSchema_get_empty)
  have keys: "str ''CompanyDocuments'' \<notin> set object_prototype_keys"
    "str ''EmployeeDocuments'' \<notin> set object_prototype_keys"
    by (simp_all add: object_prototype_keys_def str_def)
  show ?thesis
  proof (cases "documentType d0")
    case None
    with assms(1) show ?thesis by (simp add: validate_type_def)
  next
    case (Some t)
    show ?thesis
    proof (cases "t = []")
      case True
      with Some assms(1) show ?thesis by (simp add: validate_type_def)
    next
      case False
      with Some assms c keys show ?thesis
        by (auto simp: validate_type_def category_includes_def allCategories_def
              split: sum.splits bool.splits)
    qed
  qed
qed

lemma fallback_traced_cases:
  assumes "extractDocumentDetails_traced rt classificationResult = (b, r)"
    and "b \<noteq> JsonBranch"
  shows "(b = TextBranch \<and> text_fallback rt classificationResult = Inr r) \<or>
         (b = CatchBranch \<and> text_fallback rt classificationResult = Inl TypeError \<and>
            r = catch_result)"
proof -
  have fb: "fallback_traced rt classificationResult = (b, r)"
    using assms
    by (auto simp: extractDocumentDetails_traced_def split: option.splits sum.splits)
  show ?thesis
  proof (cases "text_fallback rt classificationResult")
    case (Inl e)
    with fb show ?thesis by (cases e) (auto simp: fallback_traced_def)
  next
    case (Inr r')
    with fb show ?thesis by (auto simp: fallback_traced_def)
  qed
qed

lemma text_fallback_Inl:
  "text_fallback rt classificationResult = Inl e \<longleftrightarrow>
     validate_type rt (validate_country (parse_details classificationResult)) = Inl e"
  by (simp add: text_fallback_def split: sum.splits)

lemma category_of_returned:
  assumes "text_fallback rt classificationResult = Inr r"
  shows "document_category r =
           Value (JString
             (case regex_match (str ''Document Category:'') classificationResult of
                None \<Rightarrow> str ''CompanyDocuments''
              | Some g \<Rightarrow> trim g)) \<or>
         (\<exists>c t. ClassificationResult.country r = Value (JString c) \<and>
            document_type r = Value (JString t) \<and>
            (document_category r = Value (JString (str ''CompanyDocuments'')) \<and>
               category_includes rt c (str ''CompanyDocuments'') t = Inr True \<or>
             document_category r = Value (JString (str ''EmployeeDocuments'')) \<and>
               category_includes rt c (str ''CompanyDocuments'') t = Inr False \<and>
               category_includes rt c (str ''EmployeeDocuments'') t = Inr True))"
proof -
  let ?d0 = "validate_country (parse_details classificationResult)"
  from assms obtain d where v: "validate_type rt ?d0 = Inr d" and r: "r = text_result d"
    unfolding text_fallback_def by (auto split: sum.splits)
  have parsed: "category ?d0 =
      (case regex_match (str ''Document Category:'') classificationResult of
         None \<Rightarrow> str ''CompanyDocuments'' | Some g \<Rightarrow> trim g)"
    by (simp add: parse_details_def split: option.splits)
  from validate_type_cases [OF v] consider
      (same) "category d = category ?d0"
    | (moved) c t k where "details.country ?d0 = Some c" "documentType ?d0 = Some t"
        "d = ?d0\<lparr>category := k\<rparr>" "find_category rt c t allCategories = Inr (Some k)"
    by auto
  then show ?thesis
  proof cases
    case same
    with parsed r show ?thesis by (simp add: text_result_def)
  next
    case moved
    from find_category_all [OF moved(4)] moved(1-3) r show ?thesis
      by (auto simp: text_result_def nullable_def)
  qed
qed

text \<open>
  Claim C4, as amended. For a response that the function handles on the text fallback,
  the returned category is one of three. When the fallback returns, it is
  \<^verbatim>\<open>CompanyDocuments\<close> if the pattern for the label does not match and the trimmed
  captured text if it does, whether or not that text is one of the two categories, unless
  the validator has replaced it by the first of \<^verbatim>\<open>CompanyDocuments\<close> and
  \<^verbatim>\<open>EmployeeDocuments\<close> whose list for the country has the type. When the validator
  throws, the outer \<^verbatim>\<open>catch\<close> returns its fixed result, whose category is
  \<^verbatim>\<open>CompanyDocuments\<close>.
\<close>

theorem category_of_text_fallback:
  assumes "extractDocumentDetails_traced rt classificationResult = (b, r)"
    and "b \<noteq> JsonBranch"
  shows "(b = TextBranch \<and>
            (document_category r =
               Value (JString
                 (case regex_match (str ''Document Category:'') classificationResult of
                    None \<Rightarrow> str ''CompanyDocuments''
                  | Some g \<Rightarrow> trim g)) \<or>
             (\<exists>c t. ClassificationResult.country r = Value (JString c) \<and>
                document_type r = Value (JString t) \<and>
                (document_category r = Value (JString (str ''CompanyDocuments'')) \<and>
                   category_includes rt c (str ''CompanyDocuments'') t = Inr True \<or>
                 document_category r = Value (JString (str ''EmployeeDocuments'')) \<and>
                   category_includes rt c (str ''CompanyDocuments'') t = Inr False \<and>
                   category_includes rt c (str ''EmployeeDocuments'') t = Inr True)))) \<or>
         (b = CatchBranch \<and>
            validate_type rt (validate_country (parse_details classificationResult)) =
              Inl TypeError \<and>
            document_category r = Value (JString (str ''CompanyDocuments'')))"
  using fallback_traced_cases [OF assms]
proof
  assume "b = TextBranch \<and> text_fallback rt classificationResult = Inr r"
  with category_of_returned [of rt classificationResult r] show ?thesis
    by blast
next
  assume "b = CatchBranch \<and> text_fallback rt classificationResult = Inl TypeError \<and>
      r = catch_result"
  then show ?thesis
    by (simp add: text_fallback_Inl catch_result_def)
qed

lemma aadhaar_no_label: "regex_match (str ''Document Category:'') aadhaar_text = None"
  by (simp add: aadhaar_text_def string_eval)

lemma not_json:
  "s \<noteq> example_json_text \<Longrightarrow>
     extractDocumentDetails_traced example_runtime s = fallback_traced example_runtime s"
  by (simp add: extractDocumentDetails_traced_def example_runtime_def)

lemma example_json_text_head: "hd example_json_text = 123"
  by (simp add: example_json_text_def str_def)

lemma aadhaar_run:
  "extractDocumentDetails_traced example_runtime aadhaar_text = (TextBranch, aadhaar_result)"
proof -
  have "hd aadhaar_text = 67" by (simp add: aadhaar_text_def str_def)
  with example_json_text_head have "aadhaar_text \<noteq> example_json_text" by auto
  then show ?thesis
    by (simp add: not_json fallback_traced_def aadhaar_eval)
qed

lemma constructor_captures:
  "regex_match (str ''Document Category:'') constructor_text = Some (str ''constructor'')"
  "regex_match (str ''Confidence Score:'') constructor_text = Some (str ''0.9'')"
  by (simp_all add: constructor_text_def string_eval)

lemma constructor_throws:
  "text_fallback example_runtime constructor_text = Inl TypeError"
  by (simp add: constructor_text_def string_eval number_eval taxonomy_eval fallback_eval)

lemma constructor_run:
  "extractDocumentDetails_traced example_runtime constructor_text = (CatchBranch, catch_result)"
proof -
  have "hd constructor_text = 67" by (simp add: constructor_text_def str_def)
  with example_json_text_head have "constructor_text \<noteq> example_json_text" by auto
  then show ?thesis
    by (simp add: not_json fallback_traced_def constructor_throws)
qed

theorem category_of_text_fallback_witness:
  "extractDocumentDetails_traced example_runtime aadhaar_text = (TextBranch, aadhaar_result) \<and>
   regex_match (str ''Document Category:'') aadhaar_text = None \<and>
   document_category aadhaar_result = Value (JString (str ''EmployeeDocuments'')) \<and>
   category_includes example_runtime (str ''India'') (str ''CompanyDocuments'')
     (str ''Aadhaar Card'') = Inr False \<and>
   category_includes example_runtime (str ''India'') (str ''EmployeeDocuments'')
     (str ''Aadhaar Card'') = Inr True \<and>
   extractDocumentDetails_traced example_runtime constructor_text =
     (CatchBranch, catch_result) \<and>
   regex_match (str ''Document Category:'') constructor_text = Some (str ''constructor'') \<and>
   validate_type example_runtime (validate_country (parse_details constructor_text)) =
     Inl TypeError \<and>
   document_category catch_result = Value (JString (str ''CompanyDocuments''))"
  using category_of_text_fallback [OF aadhaar_run] category_of_text_fallback [OF constructor_run]
    aadhaar_run constructor_run aadhaar_no_label constructor_captures(1)
  by (simp add: aadhaar_result_def str_def)

lemma foo_category_run:
  "extractDocumentDetails_traced example_runtime foo_category_text =
     (TextBranch, foo_category_result)"
proof -
  have "hd foo_category_text = 68" by (simp add: foo_category_text_def str_def)
  with example_json_text_head have "foo_category_text \<noteq> example_json_text" by auto
  then show ?thesis
    by (simp add: not_json fallback_traced_def foo_category_eval)
qed

text \<open>
  Claim C4 as the specification states it fails on an answer whose category is not one of
  the two values: the captured \<^verbatim>\<open>Foo\<close> is returned as the category, not
  \<^verbatim>\<open>CompanyDocuments\<close>.
\<close>

theorem unrecognized_category_kept_counterexample:
  "regex_match (str ''Document Category:'') foo_category_text = Some (str ''Foo'') \<and>
   trim (str ''Foo'') = str ''Foo'' \<and>
   str ''Foo'' \<notin> set allCategories \<and>
   extractDocumentDetails_traced example_runtime foo_category_text =
     (TextBranch, foo_category_result) \<and>
   text_fallback example_runtime foo_category_text = Inr foo_category_result \<and>
   document_category foo_category_result = Value (JString (str ''Foo'')) \<and>
   document_category foo_category_result \<noteq> Value (JString (str ''CompanyDocuments''))"
  using foo_category_eval foo_category_run
  by (simp add: foo_category_text_def foo_category_result_def allCategories_def string_eval)

lemma confidence_of_returned:
  assumes "text_fallback rt classificationResult = Inr r"
  shows "confidence_score r =
           Value (JNumber
             (case regex_match (str ''Confidence Score:'') classificationResult of
                None \<Rightarrow> Finite 0
              | Some g \<Rightarrow> parseFloat (trim g)))"
proof -
  let ?d0 = "validate_country (parse_details classificationResult)"
  from assms obtain d where v: "validate_type rt ?d0 = Inr d" and r: "r = text_result d"
    unfolding text_fallback_def by (auto split: sum.splits)
  have "details.confidence_score d =
      details.confidence_score (parse_details classificationResult)"
    using validate_type_confidence [OF v] by simp
  with r show ?thesis
    by (simp add: text_result_def parse_details_def split: option.splits)
qed

text \<open>
  \<^verbatim>\<open>parseFloat\<close> on text that is no number, on literals with trailing text, and on
  literals that are not doubles: rounding to the nearest double, ties to even, and the
  sign of zero.
\<close>

lemma parseFloat_rounds:
  "parseFloat (str ''0.92'') = Finite (8286623314361713 / 9007199254740992)"
  "parseFloat (str ''0.9'') = Finite (8106479329266893 / 9007199254740992)"
  "parseFloat (str ''0.5'') = Finite (1 / 2)"
  "parseFloat (str ''9007199254740993'') = Finite 9007199254740992"
  "parseFloat (str ''9007199254740995'') = Finite 9007199254740996"
  "parseFloat (str ''-0'') = NegativeZero"
  "parseFloat (str ''-1.5e2'') = Finite (- 150)"
  "parseFloat (str ''12px'') = Finite 12"
  "parseFloat (str ''high'') = NaN"
  by (simp_all add: str_def is_space_def number_eval Let_def)

text \<open>Overflow to infinity and underflow to zero.\<close>

lemma bit_length_bounds:
  "2 ^ k \<le> n \<Longrightarrow> n < 2 ^ Suc k \<Longrightarrow> bit_length n = Suc k"
proof (induction k arbitrary: n)
  case 0
  then have "n = 1" by simp
  then show ?case by simp
next
  case (Suc k)
  from Suc.prems have "2 ^ k \<le> n div 2" "n div 2 < 2 ^ Suc k" "n \<noteq> 0"
    by auto
  with Suc.IH [of "n div 2"] show ?case
    by (subst bit_length.simps) simp
qed

lemma bit_length_1: "bit_length (Suc 0) = 1"
  by simp

lemma round_ratio_small: "2 * n < d \<Longrightarrow> round_ratio n d = 0"
  by (simp add: round_ratio_def)

lemma bit_length_googol4: "bit_length (10 ^ 400) = Suc 1328"
  by (rule bit_length_bounds) simp_all

lemma parseFloat_overflow: "parseFloat (str ''1e400'') = Infinity False"
proof -
  have "floor_log2 (10 ^ 400) 1 = 1328"
    using bit_length_googol4
    by (simp add: floor_log2_def bit_length_1 Let_def del: bit_length.simps)
  then have "nearest_double (10 ^ 400) 1 = Infinity False"
    by (simp add: nearest_double_def Let_def del: bit_length.simps)
  then show ?thesis
    by (simp add: str_def is_space_def is_digit_def digits_value_def exponent_value_def
          unsigned_literal_def parseFloat_def Let_def del: bit_length.simps)
qed

lemma parseFloat_underflow: "parseFloat (str ''1e-400'') = Finite 0"
proof -
  have "floor_log2 1 (10 ^ 400) = - 1329"
    using bit_length_googol4
    by (simp add: floor_log2_def bit_length_1 Let_def del: bit_length.simps)
  moreover have "round_ratio (2 ^ 1074) (10 ^ 400) = 0"
    by (rule round_ratio_small) simp
  ultimately have "nearest_double 1 (10 ^ 400) = Finite 0"
    by (simp add: nearest_double_def Let_def del: bit_length.simps)
  then show ?thesis
    by (simp add: str_def is_space_def is_digit_def digits_value_def exponent_value_def
          unsigned_literal_def parseFloat_def Let_def del: bit_length.simps)
qed

text \<open>
  Claim C5, as amended. For a response that the function handles on the text fallback:
  when the fallback returns, the confidence score is 0 if the pattern for the label does
  not match, and otherwise what \<^verbatim>\<open>parseFloat\<close> makes of the trimmed captured text, which
  is NaN, not 0, when that text does not start with a decimal literal; when the validator
  throws, the outer \<^verbatim>\<open>catch\<close> returns its fixed result, whose score is 0.
\<close>

theorem confidence_of_text_fallback:
  assumes "extractDocumentDetails_traced rt classificationResult = (b, r)"
    and "b \<noteq> JsonBranch"
  shows "(b = TextBranch \<and>
            confidence_score r =
              Value (JNumber
                (case regex_match (str ''Confidence Score:'') classificationResult of
                   None \<Rightarrow> Finite 0
                 | Some g \<Rightarrow> parseFloat (trim g)))) \<or>
         (b = CatchBranch \<and>
            validate_type rt (validate_country (parse_details classificationResult)) =
              Inl TypeError \<and>
            confidence_score r = Value (JNumber (Finite 0)))"
  using fallback_traced_cases [OF assms]
proof
  assume "b = TextBranch \<and> text_fallback rt classificationResult = Inr r"
  with confidence_of_returned [of rt classificationResult r] show ?thesis
    by blast
next
  assume "b = CatchBranch \<and> text_fallback rt classificationResult = Inl TypeError \<and>
      r = catch_result"
  then show ?thesis
    by (simp add: text_fallback_Inl catch_result_def)
qed

theorem confidence_of_text_fallback_witness:
  "extractDocumentDetails_traced example_runtime scenario_text =
     (TextBranch, scenario_result) \<and>
   regex_match (str ''Confidence Score:'') scenario_text = Some (str ''0.92'') \<and>
   confidence_score scenario_result =
     Value (JNumber (Finite (8286623314361713 / 9007199254740992))) \<and>
   extractDocumentDetails_traced example_runtime aadhaar_text = (TextBranch, aadhaar_result) \<and>
   regex_match (str ''Confidence Score:'') aadhaar_text = None \<and>
   confidence_score aadhaar_result = Value (JNumber (Finite 0)) \<and>
   extractDocumentDetails_traced example_runtime constructor_text =
     (CatchBranch, catch_result) \<and>
   regex_match (str ''Confidence Score:'') constructor_text = Some (str ''0.9'') \<and>
   confidence_score catch_result = Value (JNumber (Finite 0))"
proof -
  have m: "regex_match (str ''Confidence Score:'') scenario_text = Some (str ''0.92'')"
    by (simp add: scenario_text_def string_eval)
  have n: "regex_match (str ''Confidence Score:'') aadhaar_text = None"
    by (simp add: aadhaar_text_def string_eval)
  have t: "trim (str ''0.92'') = str ''0.92''"
    by (simp add: string_eval)
  show ?thesis
    using confidence_of_text_fallback [OF scenario_traced]
      confidence_of_text_fallback [OF aadhaar_run]
      confidence_of_text_fallback [OF constructor_run]
      scenario_traced aadhaar_run constructor_run m n constructor_captures(2)
    by (simp add: t parseFloat_rounds(1))
qed

lemma high_confidence_run:
  "extractDocumentDetails_traced example_runtime high_confidence_text =
     (TextBranch, high_confidence_result)"
proof -
  have "hd high_confidence_text = 67" by (simp add: high_confidence_text_def str_def)
  with example_json_text_head have "high_confidence_text \<noteq> example_json_text" by auto
  then show ?thesis
    by (simp add: not_json fallback_traced_def high_confidence_eval)
qed

text \<open>
  Claim C5 as the specification states it fails on a worded score: the label is present,
  \<^verbatim>\<open>high\<close> is no number, and the returned score is NaN instead of 0.
\<close>

theorem unparsable_confidence_counterexample:
  "regex_match (str ''Confidence Score:'') high_confidence_text = Some (str ''high'') \<and>
   parseFloat (trim (str ''high'')) = NaN \<and>
   extractDocumentDetails_traced example_runtime high_confidence_text =
     (TextBranch, high_confidence_result) \<and>
   text_fallback example_runtime high_confidence_text = Inr high_confidence_result \<and>
   confidence_score high_confidence_result = Value (JNumber NaN) \<and>
   confidence_score high_confidence_result \<noteq> Value (JNumber (Finite 0))"
  using high_confidence_eval high_confidence_run
  by (simp add: high_confidence_text_def high_confidence_result_def string_eval number_eval)

section \<open>Evaluation of the classifier hook\<close>

lemma scenario_extract:
  "extractDocumentDetails example_runtime scenario_text = scenario_result"
  by (simp add: extractDocumentDetails_def scenario_traced)

lemma scenario_text_nonempty: "scenario_text \<noteq> []"
  by (simp add: scenario_text_def str_def)

lemma upstream_answering: "c \<noteq> [] \<Longrightarrow> upstream (world_at t1 t2 c) = Inr c"
  by (simp add: upstream_def file_loaded_def read_content_def world_at_def answering_def)

lemma file_loaded_answering: "file_loaded (world_at t1 t2 c) = Inr ()"
  by (simp add: file_loaded_def world_at_def)

lemma first_call_eval:
  "classifyDocument example_runtime (world_at 900 1000 scenario_text) idle_state example_url =
     (Fulfilled scenario_result, cached_state)"
  by (simp add: classifyDocument_def classifyDocument_begin_def classifyDocument_end_def
        idle_state_def cached_state_def upstream_answering scenario_text_nonempty
        file_loaded_answering scenario_extract truthy_def Let_def)
     (simp add: world_at_def str_def)

section \<open>The classification cache\<close>

lemma begin_cache_hit:
  assumes "lastClassificationRef s \<noteq> Some fileUrl"
    and "classificationCache s fileUrl = Some e"
    and "classify_world.now_lookup w - cache_entry.timestamp e < CACHE_EXPIRATION"
  shows "classifyDocument_begin w s fileUrl = (Some (Fulfilled (result e)), s)"
  using assms by (simp add: classifyDocument_begin_def)

lemma begin_settled_cases:
  assumes "classifyDocument_begin w s fileUrl = (Some out, s')"
  shows "(lastClassificationRef s = Some fileUrl \<and> s' = s \<and>
            out = Rejected (Error (str ''Classification already in progress''))) \<or>
         (lastClassificationRef s \<noteq> Some fileUrl \<and> s' = s \<and>
            (\<exists>e. classificationCache s fileUrl = Some e \<and> out = Fulfilled (result e) \<and>
               classify_world.now_lookup w - cache_entry.timestamp e < CACHE_EXPIRATION)) \<or>
         (lastClassificationRef s \<noteq> Some fileUrl \<and> lastClassificationRef s' = None \<and>
            out = Rejected (Error (str ''OpenRouter API key not configured'')))"
  using assms
  by (auto simp: classifyDocument_begin_def classify_failed_def Let_def
        split: if_splits option.splits)


lemma end_fulfilled:
  assumes "classifyDocument_end rt w s fileUrl = (Fulfilled r, s')"
  shows "classificationCache s' fileUrl =
           Some \<lparr>result = r, cache_entry.timestamp = classify_world.now_store w\<rparr>"
  using assms
  by (auto simp: classifyDocument_end_def classify_failed_def Let_def split: sum.splits)

text \<open>
  Claim C6, as amended. When a call of \<^verbatim>\<open>classifyDocument\<close> for a file completes
  successfully, its result is the cache entry of the file; when the call went to the
  model, the entry carries the clock of line 222. A later call for the file, made while
  the entry is still in the cache, while the marker does not hold the file, and less than
  \<open>CACHE_EXPIRATION\<close> after the time stamp of the entry, returns the same result and
  leaves the state as it is; in particular it issues no request. The five minutes count
  from the time stamp of the entry, which a cache hit does not renew.
\<close>

theorem cached_result_served:
  assumes "classifyDocument rt w1 s0 fileUrl = (Fulfilled r, s1)"
  shows "\<exists>e. classificationCache s1 fileUrl = Some e \<and> result e = r \<and>
           (fst (classifyDocument_begin w1 s0 fileUrl) = None \<longrightarrow>
              cache_entry.timestamp e = classify_world.now_store w1) \<and>
           (\<forall>w2 s2.
              classificationCache s2 fileUrl = Some e \<and>
              lastClassificationRef s2 \<noteq> Some fileUrl \<and>
              classify_world.now_lookup w2 - cache_entry.timestamp e < CACHE_EXPIRATION \<longrightarrow>
              classifyDocument rt w2 s2 fileUrl = (Fulfilled r, s2))"
proof -
  have served: "classifyDocument rt w2 s2 fileUrl = (Fulfilled (result e), s2)"
    if "classificationCache s2 fileUrl = Some e"
      "lastClassificationRef s2 \<noteq> Some fileUrl"
      "classify_world.now_lookup w2 - cache_entry.timestamp e < CACHE_EXPIRATION"
    for w2 s2 e
    using begin_cache_hit [OF that(2) that(1) that(3)] by (simp add: classifyDocument_def)
  obtain b sb where b: "classifyDocument_begin w1 s0 fileUrl = (b, sb)"
    by (cases "classifyDocument_begin w1 s0 fileUrl")
  show ?thesis
  proof (cases b)
    case None
    with b assms have "classifyDocument_end rt w1 sb fileUrl = (Fulfilled r, s1)"
      by (simp add: classifyDocument_def)
    from end_fulfilled [OF this] served show ?thesis
      by (intro exI [of _ "\<lparr>result = r, cache_entry.timestamp = classify_world.now_store w1\<rparr>"])
         auto
  next
    case (Some out)
    with b assms have out: "out = Fulfilled r" and s1: "sb = s1"
      by (simp_all add: classifyDocument_def)
    from begin_settled_cases [OF b [unfolded Some]] out s1
    obtain e where "classificationCache s1 fileUrl = Some e" "result e = r"
      by auto
    with served b Some show ?thesis
      by (intro exI [of _ e]) auto
  qed
qed

theorem cached_result_served_witness:
  "classifyDocument example_runtime (world_at 900 1000 scenario_text) idle_state example_url =
     (Fulfilled scenario_result, cached_state) \<and>
   classificationCache cached_state example_url =
     Some \<lparr>result = scenario_result, cache_entry.timestamp = 1000\<rparr> \<and>
   (300999 :: int) - 1000 < CACHE_EXPIRATION \<and>
   classifyDocument example_runtime (world_at 300999 301500 aadhaar_text) cached_state example_url =
     (Fulfilled scenario_result, cached_state)"
proof -
  from cached_result_served [OF first_call_eval]
  obtain e where e: "classificationCache cached_state example_url = Some e"
    and all: "\<forall>w2 s2.
              classificationCache s2 example_url = Some e \<and>
              lastClassificationRef s2 \<noteq> Some example_url \<and>
              classify_world.now_lookup w2 - cache_entry.timestamp e < CACHE_EXPIRATION \<longrightarrow>
              classifyDocument example_runtime w2 s2 example_url =
                (Fulfilled scenario_result, s2)"
    by blast
  have c: "classificationCache cached_state example_url =
     Some \<lparr>result = scenario_result, cache_entry.timestamp = 1000\<rparr>"
    by (simp add: cached_state_def)
  with e have t: "cache_entry.timestamp e = 1000" by auto
  have "lastClassificationRef cached_state \<noteq> Some example_url"
    by (simp add: cached_state_def)
  moreover have "classify_world.now_lookup (world_at 300999 301500 aadhaar_text)
      - cache_entry.timestamp e < CACHE_EXPIRATION"
    by (simp add: t world_at_def CACHE_EXPIRATION_def)
  ultimately have "classifyDocument example_runtime (world_at 300999 301500 aadhaar_text)
      cached_state example_url = (Fulfilled scenario_result, cached_state)"
    using all e by blast
  with first_call_eval c show ?thesis
    by (simp add: CACHE_EXPIRATION_def)
qed

lemma aadhaar_traced:
  "extractDocumentDetails example_runtime aadhaar_text = aadhaar_result"
proof -
  have "json_parse example_runtime aadhaar_text = None"
    by (simp add: example_runtime_def aadhaar_text_def example_json_text_def str_def)
  then show ?thesis
    by (simp add: extractDocumentDetails_def extractDocumentDetails_traced_def
          fallback_traced_def aadhaar_eval)
qed

lemma aadhaar_text_nonempty: "aadhaar_text \<noteq> []"
  by (simp add: aadhaar_text_def str_def)

text \<open>
  Claim C6 as the specification states it fails when the first of the two calls is itself
  served from the cache: the entry is 240 seconds old at the first call, which completes
  successfully, and 360 seconds old at the second call, 120 seconds later. With no cache
  clear in between, the second call fetches the file, asks the model and returns what the
  model answers now.
\<close>

theorem sliding_window_counterexample:
  "classifyDocument example_runtime (world_at 241000 241500 scenario_text) cached_state
     example_url = (Fulfilled scenario_result, cached_state) \<and>
   classify_world.now_lookup (world_at 361000 361500 aadhaar_text)
     - classify_world.now_lookup (world_at 241000 241500 scenario_text) < CACHE_EXPIRATION \<and>
   fst (classifyDocument example_runtime (world_at 361000 361500 aadhaar_text) cached_state
     example_url) = Fulfilled aadhaar_result \<and>
   aadhaar_result \<noteq> scenario_result \<and>
   requests (snd (classifyDocument example_runtime (world_at 361000 361500 aadhaar_text)
     cached_state example_url)) =
     requests cached_state @ [FileFetch example_url, ModelRequest example_url]"
proof -
  have hit: "classifyDocument example_runtime (world_at 241000 241500 scenario_text)
      cached_state example_url = (Fulfilled scenario_result, cached_state)"
    by (simp add: classifyDocument_def classifyDocument_begin_def cached_state_def
          world_at_def CACHE_EXPIRATION_def)
  have miss: "classifyDocument_begin (world_at 361000 361500 aadhaar_text) cached_state
      example_url =
      (None, cached_state\<lparr>isClassifying := True, classifier_state.error := None,
         lastClassificationRef := Some example_url,
         requests := requests cached_state @ [FileFetch example_url]\<rparr>)"
    by (simp add: classifyDocument_begin_def cached_state_def world_at_def
          CACHE_EXPIRATION_def truthy_def str_def)
  have differ: "aadhaar_result \<noteq> scenario_result"
    by (simp add: aadhaar_result_def scenario_result_def str_def)
  show ?thesis
    using hit differ
    by (simp add: classifyDocument_def miss classifyDocument_end_def upstream_answering
          aadhaar_text_nonempty file_loaded_answering aadhaar_traced Let_def)
       (simp add: world_at_def CACHE_EXPIRATION_def)
qed

section \<open>The in-flight guard\<close>

text \<open>
  Claim C7. A call of \<^verbatim>\<open>classifyDocument\<close> for the file that the marker holds settles
  before its first \<^verbatim>\<open>await\<close>, rejected with \<^verbatim>\<open>Classification already in progress\<close>, and
  leaves the state as it is: no request is issued and nothing is left pending.
\<close>

theorem in_flight_rejected:
  assumes "lastClassificationRef s = Some fileUrl"
  shows "classifyDocument_begin w s fileUrl =
           (Some (Rejected (Error (str ''Classification already in progress''))), s) \<and>
         classifyDocument rt w s fileUrl =
           (Rejected (Error (str ''Classification already in progress'')), s)"
  using assms by (simp add: classifyDocument_begin_def classifyDocument_def)

theorem in_flight_rejected_witness:
  "classifyDocument_begin (world_at 900 1000 scenario_text) idle_state example_url =
     (None, busy_state) \<and>
   lastClassificationRef busy_state = Some example_url \<and>
   classifyDocument example_runtime (world_at 950 1050 scenario_text) busy_state example_url =
     (Rejected (Error (str ''Classification already in progress'')), busy_state) \<and>
   requests busy_state = [FileFetch example_url]"
proof -
  have m: "lastClassificationRef busy_state = Some example_url"
    by (simp add: busy_state_def)
  have b: "classifyDocument_begin (world_at 900 1000 scenario_text) idle_state example_url =
     (None, busy_state)"
    by (simp add: classifyDocument_begin_def idle_state_def busy_state_def world_at_def
          truthy_def str_def)
  from in_flight_rejected [OF m, of "world_at 950 1050 scenario_text" example_runtime] m b
  show ?thesis
    by (simp add: busy_state_def)
qed




section \<open>Batch verification\<close>

text \<open>The decimal digits of a number: what they are worth, and how they look.\<close>

lemma digits_value_snoc: "digits_value (ds @ [c]) = 10 * digits_value ds + (c - 48)"
  by (simp add: digits_value_def)

lemma decimal_value: "digits_value (decimal n) = n"
proof (induction n rule: decimal.induct)
  case (1 n)
  show ?case
  proof (cases "n < 10")
    case True
    then show ?thesis by (subst decimal.simps) (simp add: digits_value_def)
  next
    case False
    with "1.IH" have "digits_value (decimal (n div 10)) = n div 10" by simp
    with False show ?thesis
      by (subst decimal.simps) (simp add: digits_value_snoc)
  qed
qed

lemma decimal_digits: "c \<in> set (decimal n) \<Longrightarrow> is_digit c"
proof (induction n rule: decimal.induct)
  case (1 n)
  show ?case
  proof (cases "n < 10")
    case True
    with "1.prems" show ?thesis
      by (subst (asm) decimal.simps) (simp add: is_digit_def)
  next
    case False
    with "1.prems" have "c \<in> set (decimal (n div 10)) \<or> c = 48 + n mod 10"
      by (subst (asm) decimal.simps) auto
    with False "1.IH" show ?thesis
      by (auto simp: is_digit_def)
  qed
qed

lemma decimal_nonempty: "decimal n \<noteq> []"
  by (subst decimal.simps) simp

lemma decimal_leading: "0 < n \<Longrightarrow> hd (decimal n) \<noteq> 48"
proof (induction n rule: decimal.induct)
  case (1 n)
  show ?case
  proof (cases "n < 10")
    case True
    with "1.prems" show ?thesis by (subst decimal.simps) simp
  next
    case False
    then have "0 < n div 10" by simp
    with False "1.IH" have "hd (decimal (n div 10)) \<noteq> 48" by simp
    with False show ?thesis
      by (subst decimal.simps) (simp add: decimal_nonempty)
  qed
qed

lemma decimal_examples:
  "decimal 0 = str ''0''" "decimal 1 = str ''1''" "decimal 7 = str ''7''"
  "decimal 12 = str ''12''" "decimal 100 = str ''100''" "decimal 2048 = str ''2048''"
  by (simp_all add: decimal.simps str_def)

text \<open>The outcome of one task, case by case.\<close>

lemma process_document_cached:
  assumes "cache_then w (public_url d) = Some e"
    and "now_then w - cache_entry.timestamp e < CACHE_EXPIRATION"
  shows "process_document w d = Fulfilled (d, result e)"
  using assms by (simp add: process_document_def)

lemma process_document_uncached:
  assumes "\<not> fresh_entry w d"
  shows "process_document w d =
           (case classification w of
              Rejected e \<Rightarrow> Rejected e
            | Fulfilled r \<Rightarrow>
                (case updateError w of Some e \<Rightarrow> Rejected e | None \<Rightarrow> Fulfilled (d, r)))"
  using assms
  by (auto simp: process_document_def fresh_entry_def split: option.splits)

lemma process_document_fulfilled:
  "is_fulfilled (process_document w d) \<longleftrightarrow> document_succeeded w d"
proof (cases "fresh_entry w d")
  case True
  then show ?thesis
    by (auto simp: fresh_entry_def document_succeeded_def process_document_cached
          is_fulfilled_def)
next
  case False
  then show ?thesis
    by (auto simp: process_document_uncached document_succeeded_def is_fulfilled_def
          split: settled.splits option.splits)
qed

lemma is_rejected_iff: "is_rejected r \<longleftrightarrow> \<not> is_fulfilled r"
  by (cases r) (simp_all add: is_rejected_def is_fulfilled_def)

lemma length_allSettled: "length (allSettled ws i ds) = length ds"
  by (induction ds arbitrary: i) simp_all

lemma allSettled_nth:
  "j < length ds \<Longrightarrow> allSettled ws i ds ! j = process_document (ws (i + j)) (ds ! j)"
proof (induction ds arbitrary: i j)
  case Nil
  then show ?case by simp
next
  case (Cons d ds)
  show ?case
  proof (cases j)
    case 0
    then show ?thesis by simp
  next
    case (Suc k)
    with Cons.prems have "k < length ds" by simp
    from Cons.IH [OF this, of "Suc i"] Suc show ?thesis by simp
  qed
qed

lemma count_settled:
  "length (filter P (allSettled ws 0 ds)) =
     card {i. i < length ds \<and> P (process_document (ws i) (ds ! i))}"
proof -
  have "{i. i < length (allSettled ws 0 ds) \<and> P (allSettled ws 0 ds ! i)} =
        {i. i < length ds \<and> P (process_document (ws i) (ds ! i))}"
    by (auto simp: length_allSettled allSettled_nth)
  then show ?thesis
    by (simp add: length_filter_conv_card)
qed

lemma some_settled:
  "0 < length (filter P (allSettled ws 0 ds)) \<longleftrightarrow>
     (\<exists>i < length ds. P (process_document (ws i) (ds ! i)))"
proof -
  have "0 < length (filter P (allSettled ws 0 ds)) \<longleftrightarrow>
      (\<exists>x \<in> set (allSettled ws 0 ds). P x)"
    by (simp add: filter_empty_conv)
  also have "\<dots> \<longleftrightarrow>
      (\<exists>i < length (allSettled ws 0 ds). P (allSettled ws 0 ds ! i))"
    by (metis in_set_conv_nth)
  also have "\<dots> \<longleftrightarrow> (\<exists>i < length ds. P (process_document (ws i) (ds ! i)))"
    by (auto simp: length_allSettled allSettled_nth)
  finally show ?thesis .
qed

text \<open>
  Claim C9. For a batch whose user and documents were loaded, with at least one document,
  let \<open>N\<close> be the number of documents that did not succeed. There is one outcome per
  document, fulfilled exactly when that document succeeded, whatever happened to the
  others. \<open>success\<close> holds exactly when some document succeeded. \<open>error\<close> is absent
  when \<open>N\<close> is 0; otherwise it is \<open>N\<close> in decimal digits, without a leading zero,
  followed by \<^verbatim>\<open> documents failed to process\<close>.
\<close>

theorem batch_outcome_summary:
  assumes "getUser w = Inr (None, Some u)"
    and "documents w = Inr (None, Some ds)"
    and "ds \<noteq> []"
  shows "\<exists>N. N = card {i. i < length ds \<and> \<not> document_succeeded (worlds w i) (ds ! i)} \<and>
           length (allSettled (worlds w) 0 ds) = length ds \<and>
           (\<forall>i < length ds.
              is_fulfilled (allSettled (worlds w) 0 ds ! i) =
                document_succeeded (worlds w i) (ds ! i)) \<and>
           success (batchVerify w documentIds) =
             (\<exists>i < length ds. document_succeeded (worlds w i) (ds ! i)) \<and>
           (N = 0 \<longrightarrow> batch_result.error (batchVerify w documentIds) = None) \<and>
           (0 < N \<longrightarrow>
              (\<exists>digits.
                 batch_result.error (batchVerify w documentIds) =
                   Some (digits @ str '' documents failed to process'') \<and>
                 digits \<noteq> [] \<and> (\<forall>c \<in> set digits. is_digit c) \<and> hd digits \<noteq> 48 \<and>
                 digits_value digits = N))"
proof -
  let ?results = "allSettled (worlds w) 0 ds"
  let ?N = "card {i. i < length ds \<and> \<not> document_succeeded (worlds w i) (ds ! i)}"
  have run: "batchVerify w documentIds = summarize ?results"
    using assms by (simp add: batchVerify_def)
  have failed: "length (filter is_rejected ?results) = ?N"
    by (simp add: count_settled is_rejected_iff process_document_fulfilled)
  have succ: "0 < length (filter is_fulfilled ?results) \<longleftrightarrow>
      (\<exists>i < length ds. document_succeeded (worlds w i) (ds ! i))"
    by (simp only: some_settled process_document_fulfilled)
  have s: "success (batchVerify w documentIds) =
      (\<exists>i < length ds. document_succeeded (worlds w i) (ds ! i))"
    by (simp only: run summarize_def Let_def succ batch_result.select_convs)
  have e: "batch_result.error (batchVerify w documentIds) =
      (if 0 < ?N then Some (decimal ?N @ str '' documents failed to process'') else None)"
    by (simp only: run summarize_def Let_def failed batch_result.select_convs)
  have nth: "\<forall>i < length ds.
      is_fulfilled (?results ! i) = document_succeeded (worlds w i) (ds ! i)"
    by (simp add: allSettled_nth process_document_fulfilled)
  have none: "?N = 0 \<longrightarrow> batch_result.error (batchVerify w documentIds) = None"
  proof
    assume "?N = 0"
    then have "\<not> 0 < ?N" by simp
    with e show "batch_result.error (batchVerify w documentIds) = None"
      by (simp only: if_False)
  qed
  have some: "0 < ?N \<longrightarrow>
      (\<exists>digits.
         batch_result.error (batchVerify w documentIds) =
           Some (digits @ str '' documents failed to process'') \<and>
         digits \<noteq> [] \<and> (\<forall>c \<in> set digits. is_digit c) \<and> hd digits \<noteq> 48 \<and>
         digits_value digits = ?N)"
  proof
    assume pos: "0 < ?N"
    with e have "batch_result.error (batchVerify w documentIds) =
        Some (decimal ?N @ str '' documents failed to process'')"
      by (simp only: if_True)
    with pos show "\<exists>digits.
         batch_result.error (batchVerify w documentIds) =
           Some (digits @ str '' documents failed to process'') \<and>
         digits \<noteq> [] \<and> (\<forall>c \<in> set digits. is_digit c) \<and> hd digits \<noteq> 48 \<and>
         digits_value digits = ?N"
      by (intro exI [of _ "decimal ?N"])
         (simp add: decimal_nonempty decimal_digits decimal_leading decimal_value)
  qed
  show ?thesis
  proof (rule exI [of _ ?N], intro conjI)
    show "?N = ?N" by (rule refl)
    show "length ?results = length ds" by (rule length_allSettled)
    show "\<forall>i < length ds.
        is_fulfilled (?results ! i) = document_succeeded (worlds w i) (ds ! i)"
      by (rule nth)
    show "success (batchVerify w documentIds) =
        (\<exists>i < length ds. document_succeeded (worlds w i) (ds ! i))"
      by (rule s)
    show "?N = 0 \<longrightarrow> batch_result.error (batchVerify w documentIds) = None"
      by (rule none)
    show "0 < ?N \<longrightarrow>
        (\<exists>digits.
           batch_result.error (batchVerify w documentIds) =
             Some (digits @ str '' documents failed to process'') \<and>
           digits \<noteq> [] \<and> (\<forall>c \<in> set digits. is_digit c) \<and> hd digits \<noteq> 48 \<and>
           digits_value digits = ?N)"
      by (rule some)
  qed
qed

text \<open>The two example batches, and batches that fail before the dispatch.\<close>

lemma example_batch_run:
  "batchVerify example_batch (map document.id' example_documents) =
     \<lparr>success = True, batch_result.error = Some (str ''1 documents failed to process'')\<rparr>"
  by (simp add: batchVerify_def example_batch_def example_documents_def summarize_def
        process_document_def is_fulfilled_def is_rejected_def Let_def decimal.simps)
     (simp add: str_def)

lemma failing_task_outcomes:
  "process_document (failing_task 0) shared_document =
     Fulfilled (shared_document, scenario_result)"
  "process_document (failing_task 1) shared_document = Rejected upstream_failure"
  "process_document (failing_task 2) shared_document =
     Rejected (Error (str ''permission denied for table documents''))"
  by (simp_all add: process_document_def failing_task_def shared_document_def
        cached_state_def CACHE_EXPIRATION_def)

lemma twelve_failures_run:
  "batchVerify twelve_failures (map document.id' thirteen_documents) =
     \<lparr>success = True, batch_result.error = Some (str ''12 documents failed to process'')\<rparr>"
  by (simp add: batchVerify_def twelve_failures_def thirteen_documents_def summarize_def
        process_document_def failing_task_def shared_document_def cached_state_def
        CACHE_EXPIRATION_def is_fulfilled_def is_rejected_def Let_def decimal.simps)
     (simp add: str_def)

lemma early_failures:
  "batchVerify no_session ids = \<lparr>success = False, batch_result.error = Some (str ''Not authenticated'')\<rparr>"
  "batchVerify offline ids = \<lparr>success = False, batch_result.error = Some (str ''Failed to fetch'')\<rparr>"
  by (simp_all add: batchVerify_def batch_failed_def no_session_def offline_def)

theorem batch_outcome_summary_witness:
  "batchVerify example_batch (map document.id' example_documents) =
     \<lparr>success = True, batch_result.error = Some (str ''1 documents failed to process'')\<rparr> \<and>
   card {i. i < length example_documents \<and>
     \<not> document_succeeded (worlds example_batch i) (example_documents ! i)} = 1 \<and>
   batchVerify twelve_failures (map document.id' thirteen_documents) =
     \<lparr>success = True, batch_result.error = Some (str ''12 documents failed to process'')\<rparr> \<and>
   card {i. i < length thirteen_documents \<and>
     \<not> document_succeeded (worlds twelve_failures i) (thirteen_documents ! i)} = 12 \<and>
   document_succeeded (worlds twelve_failures 0) (thirteen_documents ! 0)"
proof -
  have count: "card {i. i < length ds \<and> \<not> document_succeeded (worlds w i) (ds ! i)} =
      digits_value ns"
    if "getUser w = Inr (None, Some u)" "documents w = Inr (None, Some ds)" "ds \<noteq> []"
      "batch_result.error (batchVerify w ids) = Some (ns @ str '' documents failed to process'')"
    for w u ds ids ns
  proof -
    from batch_outcome_summary [OF that(1-3), of ids] that(4)
    obtain digits where "Some (digits @ str '' documents failed to process'') =
        Some (ns @ str '' documents failed to process'')"
      and "digits_value digits =
        card {i. i < length ds \<and> \<not> document_succeeded (worlds w i) (ds ! i)}"
      by (cases "card {i. i < length ds \<and> \<not> document_succeeded (worlds w i) (ds ! i)} = 0")
         auto
    then show ?thesis by simp
  qed
  have one: "card {i. i < length example_documents \<and>
      \<not> document_succeeded (worlds example_batch i) (example_documents ! i)} =
      digits_value (str ''1'')"
    by (rule count [where u = "str ''u1''" and ids = "map document.id' example_documents"])
       (simp_all add: example_batch_run, simp_all add: example_batch_def example_documents_def
          str_def)
  have twelve: "card {i. i < length thirteen_documents \<and>
      \<not> document_succeeded (worlds twelve_failures i) (thirteen_documents ! i)} =
      digits_value (str ''12'')"
    by (rule count [where u = "str ''u1''" and ids = "map document.id' thirteen_documents"])
       (simp_all add: twelve_failures_run, simp_all add: twelve_failures_def
          thirteen_documents_def str_def)
  have first: "document_succeeded (worlds twelve_failures 0) (thirteen_documents ! 0)"
    by (simp add: document_succeeded_def fresh_entry_def twelve_failures_def failing_task_def
          thirteen_documents_def shared_document_def cached_state_def CACHE_EXPIRATION_def)
  from one twelve first example_batch_run twelve_failures_run show ?thesis
    by (simp add: digits_value_def str_def)
qed

section \<open>Chat history\<close>

text \<open>
  Claim C10. When the query of \<^verbatim>\<open>getChatHistory\<close> fails, the call is fulfilled with the
  empty list, whatever the state it resumes on; it stores the message of the error in
  the error state, clears \<^verbatim>\<open>lastFetchRef\<close> and leaves the cache as it is. A whole call
  that gets as far as the query does the same to the state it started from.
\<close>

theorem failed_history_query_swallowed:
  assumes "query w = Inl err"
  shows "getChatHistory_end w s documentId =
           (Fulfilled [],
            s\<lparr>chat_state.error := Some (js_error.message err), lastFetchRef := None\<rparr>) \<and>
         chatHistoryCache (snd (getChatHistory_end w s documentId)) = chatHistoryCache s \<and>
         (fst (getChatHistory_begin w s documentId) = None \<longrightarrow>
            getChatHistory w s documentId =
              (Fulfilled [],
               s\<lparr>chat_state.error := Some (js_error.message err), lastFetchRef := None\<rparr>))"
proof -
  have e: "getChatHistory_end w s' documentId =
      (Fulfilled [],
       s'\<lparr>chat_state.error := Some (js_error.message err), lastFetchRef := None\<rparr>)" for s'
    using assms by (simp add: getChatHistory_end_def)
  have "getChatHistory w s documentId =
      (Fulfilled [],
       s\<lparr>chat_state.error := Some (js_error.message err), lastFetchRef := None\<rparr>)"
    if "fst (getChatHistory_begin w s documentId) = None"
  proof -
    from that have "getChatHistory_begin w s documentId =
        (None, s\<lparr>lastFetchRef := Some documentId\<rparr>)"
      by (auto simp: getChatHistory_begin_def split: if_splits option.splits)
    then show ?thesis
      by (simp add: getChatHistory_def e)
  qed
  with e show ?thesis by simp
qed

theorem failed_history_query_swallowed_witness:
  "getChatHistory failing_history example_chat (str ''d1'') =
     (Fulfilled [],
      example_chat\<lparr>chat_state.error := Some (str ''permission denied for table document_chat''),
        lastFetchRef := None\<rparr>) \<and>
   chatHistoryCache (snd (getChatHistory failing_history example_chat (str ''d1''))) (str ''d1'') =
     Some \<lparr>chat_cache_entry.messages = [example_message], chat_cache_entry.timestamp = 0\<rparr>"
proof -
  have q: "query failing_history =
      Inl (Error (str ''permission denied for table document_chat''))"
    by (simp add: failing_history_def)
  have b: "fst (getChatHistory_begin failing_history example_chat (str ''d1'')) = None"
    by (simp add: getChatHistory_begin_def example_chat_def failing_history_def
          CHAT_CACHE_EXPIRATION_def)
  from failing_history_def failed_history_query_swallowed [OF q, of example_chat "str ''d1''"] b
  show ?thesis
    by (simp add: example_chat_def)
qed

end
